theory Spec2Isabelle
  imports Main "HOL-Library.Code_Target_Nat"
begin

section \<open>Strings and form fields\<close>

text \<open>
  The server is a TypeScript program. The strings of a request, of the environment and of the
  text columns of the store are modelled as \<^typ>\<open>string\<close>, a list of 8-bit code units. The
  strings inside a decoded JSON value are lists of code units of any size (see below), so
  that a stored text can name a code unit above \<open>0xFF\<close> by an escape.
  \<open>String.prototype.trim\<close> removes the white space and line terminators of ECMAScript at
  both ends; those below \<open>0x100\<close> are TAB, LF, VT, FF, CR, SP and NBSP.
\<close>

definition js_whitespace :: "char \<Rightarrow> bool" where
  "js_whitespace c \<longleftrightarrow>
     List.member [CHR 0x09, CHR 0x0A, CHR 0x0B, CHR 0x0C, CHR 0x0D, CHR 0x20, CHR 0xA0] c"

definition trim :: "string \<Rightarrow> string" where
  "trim s = rev (dropWhile js_whitespace (rev (dropWhile js_whitespace s)))"

text \<open>\<open>input.split("\n")\<close>: the pieces between line feeds, at least one piece.\<close>

fun split_on :: "char \<Rightarrow> string \<Rightarrow> string list" where
  "split_on sep [] = [[]]"
| "split_on sep (c # cs) =
     (if c = sep then [] # split_on sep cs
      else (case split_on sep cs of [] \<Rightarrow> [[c]] | l # ls \<Rightarrow> (c # l) # ls))"

text \<open>\<open>parseLines\<close>: split at line feeds, trim each piece, drop the empty ones
  (\<open>filter(Boolean)\<close> keeps the truthy, that is non-empty, strings).\<close>

definition parseLines :: "string \<Rightarrow> string list" where
  "parseLines input = filter (\<lambda>s. s \<noteq> []) (map trim (split_on (CHR 0x0A) input))"

text \<open>
  A field of a request body parsed by \<open>express.urlencoded({ extended: true })\<close> is a string,
  an array or an object of such values, or is absent. A body is a map from field names to
  such values; a handler receives \<open>None\<close> for the body when \<open>req.body\<close> is \<open>undefined\<close>
  (the request carried no body that the parser accepts).
\<close>

datatype form_value = FStr string | FArr "form_value list" | FObj "(string \<times> form_value) list"

fun commas :: "string list \<Rightarrow> string" where
  "commas [] = []"
| "commas [x] = x"
| "commas (x # y # ys) = x @ '','' @ commas (y # ys)"

text \<open>\<open>String(v)\<close> on a body value: a string is itself, an array is its elements joined by
  commas, an object is the text \<open>[object Object]\<close>.\<close>

fun js_String :: "form_value \<Rightarrow> string" where
  "js_String (FStr s) = s"
| "js_String (FArr vs) = commas (map js_String vs)"
| "js_String (FObj kvs) = ''[object Object]''"

text \<open>Truthiness of a body value: only the empty string is falsy.\<close>

fun form_truthy :: "form_value \<Rightarrow> bool" where
  "form_truthy (FStr s) = (s \<noteq> [])"
| "form_truthy _ = True"

text \<open>\<open>String(req.body.x || "")\<close>: an absent field and the empty string give the empty
  string.\<close>

definition field_text :: "form_value option \<Rightarrow> string" where
  "field_text v =
     (case v of None \<Rightarrow> [] | Some w \<Rightarrow> if form_truthy w then js_String w else [])"

text \<open>\<open>s || null\<close> on a string.\<close>

definition or_null :: "string \<Rightarrow> string option" where
  "or_null s = (if s = [] then None else Some s)"

text \<open>Truthiness of a nullable text, and the text of one that is not null.\<close>

definition truthy :: "string option \<Rightarrow> bool" where
  "truthy v = (case v of None \<Rightarrow> False | Some s \<Rightarrow> s \<noteq> [])"

definition text_of :: "string option \<Rightarrow> string" where
  "text_of v = (case v of None \<Rightarrow> [] | Some s \<Rightarrow> s)"

section \<open>The JSON codec of the platform\<close>

text \<open>
  The menu of a date night is stored as the text that \<open>JSON.stringify\<close> produces and is read
  back with \<open>JSON.parse\<close>. Both are functions of the JavaScript platform; they are modelled
  here on the JSON grammar (RFC 8259). A number keeps its lexeme, since the server never
  computes with one. An object keeps its members in source order; a later member of the
  same key overrides an earlier one when the object is read (\<open>js_get\<close>).

  A string of a JSON value (\<open>JStr\<close>, and the keys of \<open>JObj\<close>) is the list of its code units
  as natural numbers, so that the escape \<open>\uXXXX\<close> of any code unit is read as that unit.
  \<open>JString\<close> and \<open>JObject\<close> are the string and the object whose code units are those of
  8-bit texts: every string that comes from a request is of this kind.
\<close>

datatype json = JNull | JBool bool | JNumber string | JStr "nat list"
  | JArray "json list" | JObj "(nat list \<times> json) list"

definition units :: "string \<Rightarrow> nat list" where
  "units s = map of_char s"

definition JString :: "string \<Rightarrow> json" where
  "JString s = JStr (units s)"

definition JObject :: "(string \<times> json) list \<Rightarrow> json" where
  "JObject kvs = JObj (map (\<lambda>(k, v). (units k, v)) kvs)"

definition hex_digit :: "nat \<Rightarrow> char" where
  "hex_digit n = (if n < 10 then char_of (48 + n) else char_of (87 + n))"

definition quote_char :: "char \<Rightarrow> string" where
  "quote_char c =
     (if c = CHR 0x08 then [CHR 0x5C, CHR ''b'']
      else if c = CHR 0x09 then [CHR 0x5C, CHR ''t'']
      else if c = CHR 0x0A then [CHR 0x5C, CHR ''n'']
      else if c = CHR 0x0C then [CHR 0x5C, CHR ''f'']
      else if c = CHR 0x0D then [CHR 0x5C, CHR ''r'']
      else if c = CHR 0x22 then [CHR 0x5C, CHR 0x22]
      else if c = CHR 0x5C then [CHR 0x5C, CHR 0x5C]
      else if (of_char c :: nat) < 32
        then [CHR 0x5C, CHR ''u'', CHR ''0'', CHR ''0'',
              hex_digit (of_char c div 16), hex_digit (of_char c mod 16)]
      else [c])"

text \<open>\<open>JSON.stringify\<close> writes a code unit above \<open>0xFF\<close> as the character itself (and a lone
  surrogate as its escape). The 8-bit text of the model has no such character, so the unit
  is written as its escape \<open>\uXXXX\<close>, which \<open>JSON.parse\<close> reads back as the same unit. No
  value that the server hands to \<open>JSON.stringify\<close> holds such a unit: they are built from
  the strings of a request and from the themes.\<close>

definition quote_unit :: "nat \<Rightarrow> string" where
  "quote_unit u =
     (if u < 256 then quote_char (char_of u)
      else [CHR 0x5C, CHR ''u'', hex_digit (u div 4096 mod 16), hex_digit (u div 256 mod 16),
            hex_digit (u div 16 mod 16), hex_digit (u mod 16)])"

definition quote_string :: "nat list \<Rightarrow> string" where
  "quote_string us = [CHR 0x22] @ concat (map quote_unit us) @ [CHR 0x22]"

fun JSON_stringify :: "json \<Rightarrow> string" where
  "JSON_stringify JNull = ''null''"
| "JSON_stringify (JBool b) = (if b then ''true'' else ''false'')"
| "JSON_stringify (JNumber n) = n"
| "JSON_stringify (JStr us) = quote_string us"
| "JSON_stringify (JArray vs) = ''['' @ commas (map JSON_stringify vs) @ '']''"
| "JSON_stringify (JObj kvs) =
     ''{'' @ commas (map (\<lambda>(k, v). quote_string k @ '':'' @ JSON_stringify v) kvs) @ ''}''"

datatype json_token = TLBrace | TRBrace | TLBrack | TRBrack | TColon | TComma
  | TStr "nat list" | TNum string | TTrue | TFalse | TNull

definition hex_val :: "char \<Rightarrow> nat option" where
  "hex_val c =
     (let n = (of_char c :: nat) in
      if 48 \<le> n \<and> n \<le> 57 then Some (n - 48)
      else if 65 \<le> n \<and> n \<le> 70 then Some (n - 55)
      else if 97 \<le> n \<and> n \<le> 102 then Some (n - 87)
      else None)"

definition hex4 :: "char \<Rightarrow> char \<Rightarrow> char \<Rightarrow> char \<Rightarrow> nat option" where
  "hex4 a b c d =
     (case (hex_val a, hex_val b, hex_val c, hex_val d) of
        (Some w, Some x, Some y, Some z) \<Rightarrow> Some (((w * 16 + x) * 16 + y) * 16 + z)
      | _ \<Rightarrow> None)"

definition unescape :: "char \<Rightarrow> char option" where
  "unescape e =
     (if e = CHR 0x22 then Some (CHR 0x22)
      else if e = CHR 0x5C then Some (CHR 0x5C)
      else if e = CHR ''/'' then Some (CHR ''/'')
      else if e = CHR ''b'' then Some (CHR 0x08)
      else if e = CHR ''f'' then Some (CHR 0x0C)
      else if e = CHR ''n'' then Some (CHR 0x0A)
      else if e = CHR ''r'' then Some (CHR 0x0D)
      else if e = CHR ''t'' then Some (CHR 0x09)
      else None)"

text \<open>The body of a string literal after its opening quote: the code units up to the closing
  quote, and the rest of the text.\<close>

fun lex_string :: "string \<Rightarrow> (nat list \<times> string) option" where
  "lex_string [] = None"
| "lex_string (c # cs) =
     (if c = CHR 0x22 then Some ([], cs)
      else if c = CHR 0x5C then
        (case cs of
           [] \<Rightarrow> None
         | e # cs1 \<Rightarrow>
             if e = CHR ''u'' then
               (case cs1 of
                  h1 # h2 # h3 # h4 # cs2 \<Rightarrow>
                    (case hex4 h1 h2 h3 h4 of
                       None \<Rightarrow> None
                     | Some n \<Rightarrow> map_option (apfst ((#) n)) (lex_string cs2))
                | _ \<Rightarrow> None)
             else
               (case unescape e of
                  None \<Rightarrow> None
                | Some ch \<Rightarrow> map_option (apfst ((#) (of_char ch))) (lex_string cs1)))
      else if (of_char c :: nat) < 32 then None
      else map_option (apfst ((#) (of_char c))) (lex_string cs))"


lemma lex_string_shorter: "lex_string cs = Some (s, rest) \<Longrightarrow> length rest < length cs"
  by (induction cs arbitrary: s rest rule: lex_string.induct)
     (fastforce split: if_splits list.splits option.splits)+

definition json_ws :: "char \<Rightarrow> bool" where
  "json_ws c \<longleftrightarrow> c \<in> set [CHR 0x20, CHR 0x09, CHR 0x0A, CHR 0x0D]"

definition is_digit :: "char \<Rightarrow> bool" where
  "is_digit c \<longleftrightarrow> 48 \<le> (of_char c :: nat) \<and> (of_char c :: nat) \<le> 57"

definition number_char :: "char \<Rightarrow> bool" where
  "number_char c \<longleftrightarrow> is_digit c \<or> c \<in> set ''-+.eE''"

definition valid_exponent :: "string \<Rightarrow> bool" where
  "valid_exponent s =
     (let ds = (case s of [] \<Rightarrow> [] | c # cs \<Rightarrow> if c = CHR ''+'' \<or> c = CHR ''-'' then cs else s)
      in ds \<noteq> [] \<and> list_all is_digit ds)"

definition valid_fraction :: "string \<Rightarrow> bool" where
  "valid_fraction s =
     (case s of
        [] \<Rightarrow> True
      | c # cs \<Rightarrow>
          if c = CHR ''.'' then
            takeWhile is_digit cs \<noteq> [] \<and>
            (case dropWhile is_digit cs of
               [] \<Rightarrow> True
             | e # es \<Rightarrow> (e = CHR ''e'' \<or> e = CHR ''E'') \<and> valid_exponent es)
          else (c = CHR ''e'' \<or> c = CHR ''E'') \<and> valid_exponent cs)"

definition valid_number :: "string \<Rightarrow> bool" where
  "valid_number s =
     (case (case s of [] \<Rightarrow> [] | c # cs \<Rightarrow> if c = CHR ''-'' then cs else s) of
        [] \<Rightarrow> False
      | d # ds \<Rightarrow>
          if d = CHR ''0'' then valid_fraction ds
          else is_digit d \<and> valid_fraction (dropWhile is_digit ds))"

function tokenize :: "string \<Rightarrow> json_token list option" where
  "tokenize [] = Some []"
| "tokenize (c # cs) =
     (if json_ws c then tokenize cs
      else if c = CHR ''{'' then map_option ((#) TLBrace) (tokenize cs)
      else if c = CHR ''}'' then map_option ((#) TRBrace) (tokenize cs)
      else if c = CHR ''['' then map_option ((#) TLBrack) (tokenize cs)
      else if c = CHR '']'' then map_option ((#) TRBrack) (tokenize cs)
      else if c = CHR '':'' then map_option ((#) TColon) (tokenize cs)
      else if c = CHR '','' then map_option ((#) TComma) (tokenize cs)
      else if c = CHR 0x22 then
        (case lex_string cs of
           None \<Rightarrow> None
         | Some (s, rest) \<Rightarrow> map_option ((#) (TStr s)) (tokenize rest))
      else if number_char c then
        (if valid_number (c # takeWhile number_char cs)
         then map_option ((#) (TNum (c # takeWhile number_char cs)))
                (tokenize (dropWhile number_char cs))
         else None)
      else if take 4 (c # cs) = ''true'' then map_option ((#) TTrue) (tokenize (drop 3 cs))
      else if take 5 (c # cs) = ''false'' then map_option ((#) TFalse) (tokenize (drop 4 cs))
      else if take 4 (c # cs) = ''null'' then map_option ((#) TNull) (tokenize (drop 3 cs))
      else None)"
  by pat_completeness auto
termination
proof (relation "measure length")
  show "wf (measure length)" by simp
next
  fix c cs x2 and x :: "nat list" and y :: string
  assume "lex_string cs = Some x2" "(x, y) = x2"
  then show "(y, c # cs) \<in> measure length"
    using lex_string_shorter [of cs x y] by simp
next
  fix c cs
  show "(dropWhile number_char cs, c # cs) \<in> measure length"
    using length_dropWhile_le [of number_char cs] by simp
qed simp_all

datatype frame = InArr "json list" | InObj "(nat list \<times> json) list" "nat list"

fun parse_value :: "frame list \<Rightarrow> json_token list \<Rightarrow> json option"
and parse_after :: "json \<Rightarrow> frame list \<Rightarrow> json_token list \<Rightarrow> json option" where
  "parse_value fs [] = None"
| "parse_value fs (t # ts) =
     (case t of
        TStr s \<Rightarrow> parse_after (JStr s) fs ts
      | TNum n \<Rightarrow> parse_after (JNumber n) fs ts
      | TTrue \<Rightarrow> parse_after (JBool True) fs ts
      | TFalse \<Rightarrow> parse_after (JBool False) fs ts
      | TNull \<Rightarrow> parse_after JNull fs ts
      | TLBrack \<Rightarrow>
          (case ts of
             TRBrack # ts1 \<Rightarrow> parse_after (JArray []) fs ts1
           | _ \<Rightarrow> parse_value (InArr [] # fs) ts)
      | TLBrace \<Rightarrow>
          (case ts of
             TRBrace # ts1 \<Rightarrow> parse_after (JObj []) fs ts1
           | TStr k # TColon # ts1 \<Rightarrow> parse_value (InObj [] k # fs) ts1
           | _ \<Rightarrow> None)
      | _ \<Rightarrow> None)"
| "parse_after v [] ts = (if ts = [] then Some v else None)"
| "parse_after v (InArr acc # fs) ts =
     (case ts of
        TComma # ts1 \<Rightarrow> parse_value (InArr (acc @ [v]) # fs) ts1
      | TRBrack # ts1 \<Rightarrow> parse_after (JArray (acc @ [v])) fs ts1
      | _ \<Rightarrow> None)"
| "parse_after v (InObj acc k # fs) ts =
     (case ts of
        TComma # TStr k1 # TColon # ts1 \<Rightarrow> parse_value (InObj (acc @ [(k, v)]) k1 # fs) ts1
      | TRBrace # ts1 \<Rightarrow> parse_after (JObj (acc @ [(k, v)])) fs ts1
      | _ \<Rightarrow> None)"

definition JSON_parse :: "string \<Rightarrow> json option" where
  "JSON_parse s = (case tokenize s of None \<Rightarrow> None | Some ts \<Rightarrow> parse_value [] ts)"



section \<open>Themes and menus\<close>

text \<open>A menu has three option groups. The groups of a theme are lists of strings; the
  groups decoded from the store are lists of arbitrary JSON values.\<close>

record 'a groups =
  dinner :: "'a list"
  activity :: "'a list"
  mood :: "'a list"

record theme =
  th_id :: string
  th_name :: string
  th_blurb :: string
  th_options :: "string groups"

definition THEMES :: "theme list" where
  "THEMES =
     [\<lparr>th_id = ''cottagecore-classic'',
       th_name = ''Cottagecore Classic'',
       th_blurb = ''Warm bread, soft blankets, candlelight, and gentle joy.'',
       th_options =
         \<lparr>dinner = [''Soup + fresh bread'', ''Pasta night'', ''Charcuterie + fruit'',
                     ''Takeout plated nicely''],
          activity = [''Bake something sweet'', ''Cozy movie'', ''Board games'',
                       ''Long chat + tea''],
          mood = [''Romantic'', ''Soft & slow'', ''Playful'', ''Deep & cozy'']\<rparr>\<rparr>]"

definition getTheme :: "string \<Rightarrow> theme option" where
  "getTheme i = find (\<lambda>t. th_id t = i) THEMES"

text \<open>\<open>m?.key\<close> for the keys \<open>dinner\<close>, \<open>activity\<close> and \<open>mood\<close>: the member of an object,
  and \<open>undefined\<close> (\<open>None\<close>) on \<open>null\<close>, on a primitive and on an array, whose prototypes
  have no such property.\<close>

fun js_get :: "json \<Rightarrow> string \<Rightarrow> json option" where
  "js_get (JObj kvs) k = map_of (rev kvs) (units k)"
| "js_get _ k = None"

text \<open>\<open>Array.isArray(x) ? x : []\<close>.\<close>

fun array_or_empty :: "json option \<Rightarrow> json list" where
  "array_or_empty (Some (JArray xs)) = xs"
| "array_or_empty _ = []"

text \<open>\<open>safeParseMenuJson\<close>: the \<open>catch\<close> branch is the case where \<open>JSON.parse\<close> throws.\<close>

definition safeParseMenuJson :: "string \<Rightarrow> json groups" where
  "safeParseMenuJson menuJson =
     (case JSON_parse menuJson of
        Some m \<Rightarrow>
          \<lparr>dinner = array_or_empty (js_get m ''dinner''),
           activity = array_or_empty (js_get m ''activity''),
           mood = array_or_empty (js_get m ''mood'')\<rparr>
      | None \<Rightarrow> \<lparr>dinner = [], activity = [], mood = []\<rparr>)"

text \<open>\<open>xs.includes(s)\<close> for a string \<open>s\<close> of a request: some element is the same value as
  \<open>s\<close>, which only a string of the same code units is.\<close>

definition array_includes :: "json list \<Rightarrow> string \<Rightarrow> bool" where
  "array_includes xs s = List.member xs (JString s)"

text \<open>The object literal \<open>{ dinner, activity, mood }\<close> of three string arrays.\<close>

definition menu_object :: "string list \<Rightarrow> string list \<Rightarrow> string list \<Rightarrow> json" where
  "menu_object d a m =
     JObject [(''dinner'', JArray (map JString d)),
              (''activity'', JArray (map JString a)),
              (''mood'', JArray (map JString m))]"

text \<open>A body value as \<open>JSON.stringify\<close> sees it.\<close>

fun form_json :: "form_value \<Rightarrow> json" where
  "form_json (FStr s) = JString s"
| "form_json (FArr vs) = JArray (map form_json vs)"
| "form_json (FObj kvs) = JObject (map (\<lambda>(k, v). (k, form_json v)) kvs)"

section \<open>The store\<close>

text \<open>
  The three tables of \<open>migrate\<close>, each a list of rows in insertion order. A nullable column
  is an \<^typ>\<open>string option\<close>. The columns \<open>id\<close> and \<open>created_at\<close> occur in every table and
  carry the table's prefix here.
\<close>

record date_night =
  dn_id :: string
  title :: string
  theme_id :: string
  date_iso :: "string option"
  menu_json :: string
  blurb :: "string option"
  dn_created_at :: string

record invite =
  inv_id :: string
  date_night_id :: string
  token :: string
  recipient_email :: "string option"
  used_at :: "string option"
  inv_created_at :: string

record selection =
  sel_id :: string
  invite_id :: string
  dinner_choice :: string
  activity_choice :: string
  mood_choice :: string
  sel_notes :: "string option"
  sel_created_at :: string

record db =
  date_nights :: "date_night list"
  invites :: "invite list"
  selections :: "selection list"

text \<open>What a handler can throw: a constraint of the schema rejects a statement; the storage
  engine fails a statement for a reason of its own (busy, I/O); a field of \<open>req.body\<close> is
  read when the request carried no body that the parser accepts and \<open>req.body\<close> is
  \<open>undefined\<close>; \<open>sendEmail\<close> throws on a response that is not ok (status and body);
  \<open>fetch\<close> itself rejects.\<close>

datatype exn =
    Sqlite_constraint
  | Sqlite_fault
  | TypeError
  | Resend_failed nat string
  | Fetch_rejected string

text \<open>\<open>SELECT * FROM invites WHERE token = ?\<close> and \<open>WHERE id = ?\<close>, with \<open>.get\<close>: the first
  matching row.\<close>

definition select_invite_by_token :: "db \<Rightarrow> string \<Rightarrow> invite option" where
  "select_invite_by_token d t = find (\<lambda>i. token i = t) (invites d)"

definition select_invite_by_id :: "db \<Rightarrow> string \<Rightarrow> invite option" where
  "select_invite_by_id d i = find (\<lambda>r. inv_id r = i) (invites d)"

definition select_date_night :: "db \<Rightarrow> string \<Rightarrow> date_night option" where
  "select_date_night d i = find (\<lambda>r. dn_id r = i) (date_nights d)"

text \<open>\<open>INSERT INTO selections\<close>: \<open>id\<close> is the primary key and \<open>invite_id\<close> is \<open>UNIQUE\<close>; a row
  that repeats either is rejected and the table is left as it was.\<close>

definition insert_selection :: "db \<Rightarrow> selection \<Rightarrow> exn + db" where
  "insert_selection d row =
     (if list_ex (\<lambda>s. sel_id s = sel_id row \<or> invite_id s = invite_id row) (selections d)
      then Inl Sqlite_constraint
      else Inr (d\<lparr>selections := selections d @ [row]\<rparr>))"

text \<open>\<open>INSERT INTO date_nights\<close>: \<open>id\<close> is the primary key.\<close>

definition insert_date_night :: "db \<Rightarrow> date_night \<Rightarrow> exn + db" where
  "insert_date_night d row =
     (if list_ex (\<lambda>r. dn_id r = dn_id row) (date_nights d) then Inl Sqlite_constraint
      else Inr (d\<lparr>date_nights := date_nights d @ [row]\<rparr>))"

text \<open>\<open>INSERT INTO invites\<close>: \<open>id\<close> is the primary key and \<open>token\<close> is \<open>UNIQUE\<close>.\<close>

definition insert_invite :: "db \<Rightarrow> invite \<Rightarrow> exn + db" where
  "insert_invite d row =
     (if list_ex (\<lambda>r. inv_id r = inv_id row \<or> token r = token row) (invites d)
      then Inl Sqlite_constraint
      else Inr (d\<lparr>invites := invites d @ [row]\<rparr>))"

text \<open>\<open>UPDATE invites SET used_at = ? WHERE id = ?\<close>.\<close>

definition update_invite_used_at :: "db \<Rightarrow> string \<Rightarrow> string \<Rightarrow> db" where
  "update_invite_used_at d t i =
     d\<lparr>invites := map (\<lambda>r. if inv_id r = i then r\<lparr>used_at := Some t\<rparr> else r) (invites d)\<rparr>"

text \<open>\<open>UPDATE date_nights SET menu_json = ?, blurb = ? WHERE id = ?\<close>.\<close>

definition update_date_night_menu :: "db \<Rightarrow> string \<Rightarrow> string option \<Rightarrow> string \<Rightarrow> db" where
  "update_date_night_menu d mj b i =
     d\<lparr>date_nights :=
         map (\<lambda>r. if dn_id r = i then r\<lparr>menu_json := mj, blurb := b\<rparr> else r) (date_nights d)\<rparr>"


section \<open>Sessions, responses and the outside world\<close>

text \<open>
  A flash is a message kept in the session until the next page is rendered. The texts of
  the messages hold characters outside ASCII, so each message is a constructor:
  \<^item> \<open>Msg_invite_missing\<close>: "That invite doesn't exist."
  \<^item> \<open>Msg_already_used\<close>: "This invite was already used."
  \<^item> \<open>Msg_invalid_choices\<close>: "One or more choices were invalid. Please try again."
  \<^item> \<open>Msg_no_invite_or_email\<close>: "Invite not found or missing recipient email."
  \<^item> \<open>Msg_resent\<close>: "Invite re-sent"
  \<^item> \<open>Msg_resend_failed e\<close>: "Re-send failed: " followed by the message of \<open>e\<close>
  \<^item> \<open>Msg_need_options\<close>: "Please provide at least 1 option in each section."
  \<^item> \<open>Msg_itinerary_saved\<close>: "Itinerary saved"
  \<^item> \<open>Msg_add_title\<close>: "Please add a title."
  \<^item> \<open>Msg_no_such_theme\<close>: "That theme doesn't exist."
  \<^item> \<open>Msg_invite_emailed\<close>: "Invite created and emailed"
  \<^item> \<open>Msg_invite_email_failed e\<close>: "Invite created, but email failed: " followed by the
    message of \<open>e\<close>
  \<^item> \<open>Msg_invite_created\<close>: "Invite created. Copy the link and send it"
\<close>

datatype flash_type = Info | Error

datatype msg =
    Msg_invite_missing
  | Msg_already_used
  | Msg_invalid_choices
  | Msg_no_invite_or_email
  | Msg_resent
  | Msg_resend_failed exn
  | Msg_need_options
  | Msg_itinerary_saved
  | Msg_add_title
  | Msg_no_such_theme
  | Msg_invite_emailed
  | Msg_invite_email_failed exn
  | Msg_invite_created

datatype flash = Flash flash_type msg

record session =
  isAdmin :: bool
  flash :: "flash option"

definition setFlash :: "session \<Rightarrow> flash \<Rightarrow> session" where
  "setFlash s f = s\<lparr>flash := Some f\<rparr>"

text \<open>A response: a redirect to a path, a rendered view (its name, the status when one is
  set, the flash it shows), or no response because an exception left the handler.\<close>

datatype response =
    Redirect string
  | Page string "nat option" "flash option"
  | Uncaught exn

text \<open>\<open>renderPage\<close>: the flash shown is the one passed in, or else the one consumed from
  the session (\<open>opts.flash ?? consumeFlash(req)\<close>). Titles and the HTML are not modelled.\<close>

definition renderPage :: "session \<Rightarrow> string \<Rightarrow> nat option \<Rightarrow> flash option \<Rightarrow> response \<times> session" where
  "renderPage s view status fl =
     (case fl of
        Some f \<Rightarrow> (Page view status (Some f), s)
      | None \<Rightarrow> (Page view status (flash s), s\<lparr>flash := None\<rparr>))"

text \<open>The emails, by the arguments of the function that renders each:
  \<open>renderInviteEmail\<close> (title, theme name, theme blurb, invite URL),
  \<open>renderPlannerEmail\<close> (title, theme name, invite URL, dinner, activity, mood, notes),
  \<open>renderPartnerConfirmationEmail\<close> (title, theme name).\<close>

datatype email =
    InviteEmail string string string string
  | PlannerEmail string string string string string string "string option"
  | PartnerConfirmationEmail string string

record mail =
  mail_to :: string
  mail_content :: email

text \<open>What the network does with one call of \<open>fetch\<close>: the promise rejects, or a response
  arrives (\<open>res.ok\<close>, status, body).\<close>

datatype fetch_result = Rejects string | Responds bool nat string

text \<open>Everything a request reads that is not the store, the session or the request itself:
  the environment variables, the clock, the identifiers \<open>nanoid(12)\<close> and \<open>nanoid(22)\<close>
  return, the fate of each email request, and for each storage statement whether the
  storage engine fails it for a reason of its own: \<open>insert_fault\<close> and \<open>update_fault\<close> are
  the \<open>INSERT\<close> of the selection and the \<open>UPDATE\<close> of the invite on the invite page, the
  others are named after their statement.\<close>

record world =
  process_env :: "string \<rightharpoonup> string"
  now :: string
  nanoid12 :: string
  nanoid22 :: string
  select_invite_fault :: bool
  select_date_night_fault :: bool
  insert_fault :: bool
  update_fault :: bool
  insert_date_night_fault :: bool
  insert_invite_fault :: bool
  update_menu_fault :: bool
  planner_fetch :: fetch_result
  partner_fetch :: fetch_result
  invite_fetch :: fetch_result

text \<open>\<open>process.env.X || dflt\<close>.\<close>

definition env_or :: "world \<Rightarrow> string \<Rightarrow> string \<Rightarrow> string" where
  "env_or w k dflt =
     (case process_env w k of None \<Rightarrow> dflt | Some v \<Rightarrow> if v = [] then dflt else v)"

text \<open>\<open>baseUrl\<close>: one trailing slash is removed (\<open>replace(/\/$/, "")\<close>).\<close>

definition baseUrl :: "world \<Rightarrow> string" where
  "baseUrl w =
     (let b = env_or w ''BASE_URL'' ''http://localhost:3000''
      in if b \<noteq> [] \<and> last b = CHR ''/'' then butlast b else b)"

definition plannerEmail :: "world \<Rightarrow> string" where
  "plannerEmail w = trim (env_or w ''PLANNER_EMAIL'' [])"

text \<open>\<open>sendEmail\<close>: without an API key the email is only logged and the call returns; with
  one, the call throws when \<open>fetch\<close> rejects or the response is not ok.\<close>

definition sendEmail :: "world \<Rightarrow> fetch_result \<Rightarrow> exn + unit" where
  "sendEmail w r =
     (if \<not> truthy (map_option trim (process_env w ''RESEND_API_KEY'')) then Inr ()
      else (case r of
              Rejects m \<Rightarrow> Inl (Fetch_rejected m)
            | Responds ok status body \<Rightarrow> if ok then Inr () else Inl (Resend_failed status body)))"

text \<open>The lines a handler writes to the console.\<close>

datatype log_line =
    Planner_email_failed exn
  | Planner_email_missing
  | Partner_email_failed exn

text \<open>What a handler leaves behind: the response, the session, the store, the calls of
  \<open>sendEmail\<close> in order, and the console lines.\<close>

record result =
  response :: response
  session :: session
  store :: db
  outbox :: "mail list"
  console :: "log_line list"

section \<open>The invite page: \<open>POST /invite/:token\<close>\<close>

text \<open>The constant \<open>valid\<close> of the handler.\<close>

definition valid_selection :: "json groups \<Rightarrow> string \<Rightarrow> string \<Rightarrow> string \<Rightarrow> bool" where
  "valid_selection menu dinnerChoice activityChoice moodChoice \<longleftrightarrow>
     array_includes (dinner menu) dinnerChoice \<and>
     array_includes (activity menu) activityChoice \<and>
     array_includes (mood menu) moodChoice"

text \<open>The two write statements of the handler, in their order, with no transaction around
  them: the \<open>INSERT\<close> of the selection, then the \<open>UPDATE\<close> of the invite. The result is the
  exception that stopped the handler, if any, and the store as the statements left it.\<close>

definition record_selection ::
  "world \<Rightarrow> db \<Rightarrow> invite \<Rightarrow> string \<Rightarrow> string \<Rightarrow> string \<Rightarrow> string option \<Rightarrow> exn option \<times> db" where
  "record_selection w d iv dinnerChoice activityChoice moodChoice notesText =
     (if insert_fault w then (Some Sqlite_fault, d)
      else
        (case insert_selection d
                \<lparr>sel_id = nanoid12 w, invite_id = inv_id iv, dinner_choice = dinnerChoice,
                 activity_choice = activityChoice, mood_choice = moodChoice,
                 sel_notes = notesText, sel_created_at = now w\<rparr> of
           Inl e \<Rightarrow> (Some e, d)
         | Inr d1 \<Rightarrow>
             if update_fault w then (Some Sqlite_fault, d1)
             else (None, update_invite_used_at d1 (now w) (inv_id iv))))"

text \<open>The planner block: with a planner address the summary is sent inside \<open>try\<close>, and a
  failure is logged; without one a line is logged and nothing is sent.\<close>

definition notify_planner ::
  "world \<Rightarrow> date_night \<Rightarrow> theme \<Rightarrow> string \<Rightarrow> string \<Rightarrow> string \<Rightarrow> string \<Rightarrow> string option
     \<Rightarrow> mail list \<times> log_line list" where
  "notify_planner w dn th tok dinnerChoice activityChoice moodChoice notesText =
     (let pe = plannerEmail w; inviteUrl = baseUrl w @ ''/invite/'' @ tok
      in if pe \<noteq> [] then
           ([\<lparr>mail_to = pe,
              mail_content = PlannerEmail (title dn) (th_name th) inviteUrl dinnerChoice
                               activityChoice moodChoice notesText\<rparr>],
            (case sendEmail w (planner_fetch w) of
               Inl e \<Rightarrow> [Planner_email_failed e]
             | Inr _ \<Rightarrow> []))
         else ([], [Planner_email_missing]))"

text \<open>The confirmation block: only when the invite has a recipient address.\<close>

definition notify_partner :: "world \<Rightarrow> invite \<Rightarrow> date_night \<Rightarrow> theme \<Rightarrow> mail list \<times> log_line list" where
  "notify_partner w iv dn th =
     (if truthy (recipient_email iv) then
        ([\<lparr>mail_to = text_of (recipient_email iv),
           mail_content = PartnerConfirmationEmail (title dn) (th_name th)\<rparr>],
         (case sendEmail w (partner_fetch w) of
            Inl e \<Rightarrow> [Partner_email_failed e]
          | Inr _ \<Rightarrow> []))
      else ([], []))"

text \<open>The handler. The request body is \<open>None\<close> when \<open>req.body\<close> is \<open>undefined\<close>; the first read
  of one of its fields, after the invite, the date night and the theme were found, then
  throws. An exception leaves the handler: nothing is answered and the flash is as it was.\<close>

definition post_invite ::
  "world \<Rightarrow> db \<Rightarrow> session \<Rightarrow> string \<Rightarrow> (string \<rightharpoonup> form_value) option \<Rightarrow> result" where
  "post_invite w d s tok body =
     (if select_invite_fault w then
        \<lparr>response = Uncaught Sqlite_fault, session = s, store = d, outbox = [], console = []\<rparr>
      else
        (case select_invite_by_token d tok of
           None \<Rightarrow>
             \<lparr>response = Redirect (''/invite/'' @ tok),
              session = setFlash s (Flash Error Msg_invite_missing),
              store = d, outbox = [], console = []\<rparr>
         | Some iv \<Rightarrow>
             if truthy (used_at iv) then
               \<lparr>response = Redirect (''/invite/'' @ tok),
                session = setFlash s (Flash Error Msg_already_used),
                store = d, outbox = [], console = []\<rparr>
             else if select_date_night_fault w then
               \<lparr>response = Uncaught Sqlite_fault, session = s, store = d,
                outbox = [], console = []\<rparr>
             else
               (case select_date_night d (date_night_id iv) of
                  None \<Rightarrow>
                    \<lparr>response = Redirect (''/invite/'' @ tok), session = s,
                     store = d, outbox = [], console = []\<rparr>
                | Some dn \<Rightarrow>
                    (case getTheme (theme_id dn) of
                       None \<Rightarrow>
                         \<lparr>response = Redirect (''/invite/'' @ tok), session = s,
                          store = d, outbox = [], console = []\<rparr>
                     | Some th \<Rightarrow>
                         (case body of
                            None \<Rightarrow>
                              \<lparr>response = Uncaught TypeError, session = s, store = d,
                               outbox = [], console = []\<rparr>
                          | Some b \<Rightarrow>
                              (let menu = safeParseMenuJson (menu_json dn);
                                   dinnerChoice = trim (field_text (b ''dinnerChoice''));
                                   activityChoice = trim (field_text (b ''activityChoice''));
                                   moodChoice = trim (field_text (b ''moodChoice''));
                                   notesText = or_null (trim (field_text (b ''notes'')))
                               in if \<not> valid_selection menu dinnerChoice activityChoice
                                        moodChoice then
                                    \<lparr>response = Redirect (''/invite/'' @ tok),
                                     session = setFlash s (Flash Error Msg_invalid_choices),
                                     store = d, outbox = [], console = []\<rparr>
                                  else
                                    (case record_selection w d iv dinnerChoice activityChoice
                                            moodChoice notesText of
                                       (Some e, d1) \<Rightarrow>
                                         \<lparr>response = Uncaught e, session = s, store = d1,
                                          outbox = [], console = []\<rparr>
                                     | (None, d2) \<Rightarrow>
                                         (let planner = notify_planner w dn th tok dinnerChoice
                                                          activityChoice moodChoice notesText;
                                              partner = notify_partner w iv dn th;
                                              page = renderPage s ''thanks'' None None
                                          in \<lparr>response = fst page, session = snd page,
                                              store = d2,
                                              outbox = fst planner @ fst partner,
                                              console = snd planner @ snd partner\<rparr>))))))))"

section \<open>The admin pages\<close>

text \<open>\<open>POST /admin/new\<close>, behind \<open>requireAdmin\<close>. The menu stored is
  \<open>JSON.stringify(req.body.menu || theme?.options || {})\<close>: a menu sent with the request is
  stored as it is. The body is read in the first statement of the handler.\<close>

definition post_new ::
  "world \<Rightarrow> db \<Rightarrow> session \<Rightarrow> (string \<rightharpoonup> form_value) option \<Rightarrow> result" where
  "post_new w d s body =
     (if \<not> isAdmin s then
        \<lparr>response = Redirect ''/admin/login'', session = s, store = d,
         outbox = [], console = []\<rparr>
      else
        (case body of
           None \<Rightarrow>
             \<lparr>response = Uncaught TypeError, session = s, store = d,
              outbox = [], console = []\<rparr>
         | Some b \<Rightarrow>
             (let th = getTheme (trim (field_text (b ''themeId'')));
                  titleText = trim (field_text (b ''title''));
                  themeId = trim (field_text (b ''themeId''));
                  dateIso = or_null (trim (field_text (b ''date'')));
                  fallback = (case th of Some t \<Rightarrow> menu_object (dinner (th_options t))
                                                   (activity (th_options t)) (mood (th_options t))
                              | None \<Rightarrow> JObject []);
                  menuJson = JSON_stringify
                               (case b ''menu'' of
                                  None \<Rightarrow> fallback
                                | Some v \<Rightarrow> if form_truthy v then form_json v else fallback)
              in if titleText = [] then
                   \<lparr>response = Redirect ''/admin/new'',
                    session = setFlash s (Flash Error Msg_add_title),
                    store = d, outbox = [], console = []\<rparr>
                 else if getTheme themeId = None then
                   \<lparr>response = Redirect ''/admin/new'',
                    session = setFlash s (Flash Error Msg_no_such_theme),
                    store = d, outbox = [], console = []\<rparr>
                 else if insert_date_night_fault w then
                   \<lparr>response = Uncaught Sqlite_fault, session = s, store = d,
                    outbox = [], console = []\<rparr>
                 else
                   (case insert_date_night d
                           \<lparr>dn_id = nanoid12 w, title = titleText, theme_id = themeId,
                            date_iso = dateIso, menu_json = menuJson,
                            blurb = Some (case th of Some t \<Rightarrow> th_blurb t | None \<Rightarrow> []),
                            dn_created_at = now w\<rparr> of
                      Inl e \<Rightarrow>
                        \<lparr>response = Uncaught e, session = s, store = d,
                         outbox = [], console = []\<rparr>
                    | Inr d1 \<Rightarrow>
                        \<lparr>response = Redirect (''/admin/date-night/'' @ nanoid12 w),
                         session = s, store = d1, outbox = [], console = []\<rparr>))))"

text \<open>\<open>POST /admin/date-night/:id/invite\<close>, behind \<open>requireAdmin\<close>: the invite gets a fresh
  identifier and a fresh token, and is emailed when a recipient address was given. The body
  is read before the date night is looked up.\<close>

definition post_issue ::
  "world \<Rightarrow> db \<Rightarrow> session \<Rightarrow> string \<Rightarrow> (string \<rightharpoonup> form_value) option \<Rightarrow> result" where
  "post_issue w d s dateNightId body =
     (if \<not> isAdmin s then
        \<lparr>response = Redirect ''/admin/login'', session = s, store = d,
         outbox = [], console = []\<rparr>
      else
        (case body of
           None \<Rightarrow>
             \<lparr>response = Uncaught TypeError, session = s, store = d,
              outbox = [], console = []\<rparr>
         | Some b \<Rightarrow>
             (let recipientEmail = or_null (trim (field_text (b ''recipientEmail'')))
              in if select_date_night_fault w then
                   \<lparr>response = Uncaught Sqlite_fault, session = s, store = d,
                    outbox = [], console = []\<rparr>
                 else
                   (case select_date_night d dateNightId of
                      None \<Rightarrow>
                        \<lparr>response = Redirect ''/admin/dashboard'', session = s, store = d,
                         outbox = [], console = []\<rparr>
                    | Some dn \<Rightarrow>
                        (case getTheme (theme_id dn) of
                           None \<Rightarrow>
                             \<lparr>response = Redirect (''/admin/date-night/'' @ dateNightId),
                              session = s, store = d, outbox = [], console = []\<rparr>
                         | Some th \<Rightarrow>
                             if insert_invite_fault w then
                               \<lparr>response = Uncaught Sqlite_fault, session = s, store = d,
                                outbox = [], console = []\<rparr>
                             else
                               (case insert_invite d
                                       \<lparr>inv_id = nanoid12 w, date_night_id = dateNightId,
                                        token = nanoid22 w, recipient_email = recipientEmail,
                                        used_at = None, inv_created_at = now w\<rparr> of
                                  Inl e \<Rightarrow>
                                    \<lparr>response = Uncaught e, session = s, store = d,
                                     outbox = [], console = []\<rparr>
                                | Inr d1 \<Rightarrow>
                                    (case recipientEmail of
                                       None \<Rightarrow>
                                         \<lparr>response =
                                            Redirect (''/admin/date-night/'' @ dateNightId),
                                          session = setFlash s (Flash Info Msg_invite_created),
                                          store = d1, outbox = [], console = []\<rparr>
                                     | Some addr \<Rightarrow>
                                         \<lparr>response =
                                            Redirect (''/admin/date-night/'' @ dateNightId),
                                          session =
                                            (case sendEmail w (invite_fetch w) of
                                               Inr _ \<Rightarrow>
                                                 setFlash s (Flash Info Msg_invite_emailed)
                                             | Inl e \<Rightarrow>
                                                 setFlash s
                                                   (Flash Error (Msg_invite_email_failed e))),
                                          store = d1,
                                          outbox =
                                            [\<lparr>mail_to = addr,
                                              mail_content =
                                                InviteEmail (title dn) (th_name th) (th_blurb th)
                                                  (baseUrl w @ ''/invite/'' @ nanoid22 w)\<rparr>],
                                          console = []\<rparr>)))))))"

text \<open>\<open>POST /admin/date-night/:id/menu\<close>, behind \<open>requireAdmin\<close>. The body is read after the
  date night was found.\<close>

definition post_menu ::
  "world \<Rightarrow> db \<Rightarrow> session \<Rightarrow> string \<Rightarrow> (string \<rightharpoonup> form_value) option \<Rightarrow> result" where
  "post_menu w d s i body =
     (if \<not> isAdmin s then
        \<lparr>response = Redirect ''/admin/login'', session = s, store = d,
         outbox = [], console = []\<rparr>
      else if select_date_night_fault w then
        \<lparr>response = Uncaught Sqlite_fault, session = s, store = d, outbox = [], console = []\<rparr>
      else
        (case select_date_night d i of
           None \<Rightarrow>
             \<lparr>response = Redirect ''/admin/dashboard'', session = s, store = d,
              outbox = [], console = []\<rparr>
         | Some dn \<Rightarrow>
             (case body of
                None \<Rightarrow>
                  \<lparr>response = Uncaught TypeError, session = s, store = d,
                   outbox = [], console = []\<rparr>
              | Some b \<Rightarrow>
                  (let dinnerLines = parseLines (field_text (b ''dinner''));
                       activityLines = parseLines (field_text (b ''activity''));
                       moodLines = parseLines (field_text (b ''mood''));
                       blurbText = or_null (trim (field_text (b ''blurb'')))
                   in if dinnerLines = [] \<or> activityLines = [] \<or> moodLines = [] then
                        \<lparr>response = Redirect (''/admin/date-night/'' @ i @ ''/menu''),
                         session = setFlash s (Flash Error Msg_need_options),
                         store = d, outbox = [], console = []\<rparr>
                      else if update_menu_fault w then
                        \<lparr>response = Uncaught Sqlite_fault, session = s, store = d,
                         outbox = [], console = []\<rparr>
                      else
                        \<lparr>response = Redirect (''/admin/date-night/'' @ i),
                         session = setFlash s (Flash Info Msg_itinerary_saved),
                         store = update_date_night_menu d
                                   (JSON_stringify
                                      (menu_object dinnerLines activityLines moodLines))
                                   blurbText i,
                         outbox = [], console = []\<rparr>))))"

text \<open>\<open>POST /admin/invite/:inviteId/resend\<close>, behind \<open>requireAdmin\<close>. It reads no field of the
  body.\<close>

definition post_resend :: "world \<Rightarrow> db \<Rightarrow> session \<Rightarrow> string \<Rightarrow> result" where
  "post_resend w d s inviteId =
     (if \<not> isAdmin s then
        \<lparr>response = Redirect ''/admin/login'', session = s, store = d,
         outbox = [], console = []\<rparr>
      else if select_invite_fault w then
        \<lparr>response = Uncaught Sqlite_fault, session = s, store = d, outbox = [], console = []\<rparr>
      else
        (case select_invite_by_id d inviteId of
           None \<Rightarrow>
             \<lparr>response = Redirect ''/admin/dashboard'',
              session = setFlash s (Flash Error Msg_no_invite_or_email),
              store = d, outbox = [], console = []\<rparr>
         | Some iv \<Rightarrow>
             if \<not> truthy (recipient_email iv) then
               \<lparr>response = Redirect ''/admin/dashboard'',
                session = setFlash s (Flash Error Msg_no_invite_or_email),
                store = d, outbox = [], console = []\<rparr>
             else if select_date_night_fault w then
               \<lparr>response = Uncaught Sqlite_fault, session = s, store = d,
                outbox = [], console = []\<rparr>
             else
               (case select_date_night d (date_night_id iv) of
                  None \<Rightarrow>
                    \<lparr>response = Redirect ''/admin/dashboard'', session = s, store = d,
                     outbox = [], console = []\<rparr>
                | Some dn \<Rightarrow>
                    (case getTheme (theme_id dn) of
                       None \<Rightarrow>
                         \<lparr>response = Redirect (''/admin/date-night/'' @ dn_id dn),
                          session = s, store = d, outbox = [], console = []\<rparr>
                     | Some th \<Rightarrow>
                         (let inviteUrl = baseUrl w @ ''/invite/'' @ token iv
                          in \<lparr>response = Redirect (''/admin/date-night/'' @ dn_id dn),
                              session =
                                (case sendEmail w (invite_fetch w) of
                                   Inr _ \<Rightarrow> setFlash s (Flash Info Msg_resent)
                                 | Inl e \<Rightarrow> setFlash s (Flash Error (Msg_resend_failed e))),
                              store = d,
                              outbox =
                                [\<lparr>mail_to = text_of (recipient_email iv),
                                  mail_content = InviteEmail (title dn) (th_name th)
                                                   (th_blurb th) inviteUrl\<rparr>],
                              console = []\<rparr>)))))"

section \<open>Auxiliary definitions for the theorems\<close>

text \<open>The tokens of an array of strings, and of the text that Edit Menu stores.\<close>

fun sep_tokens :: "string list \<Rightarrow> json_token list" where
  "sep_tokens [] = []"
| "sep_tokens [x] = [TStr (units x)]"
| "sep_tokens (x # y # ys) = TStr (units x) # TComma # sep_tokens (y # ys)"

definition menu_tokens :: "string list \<Rightarrow> string list \<Rightarrow> string list \<Rightarrow> json_token list" where
  "menu_tokens d a m =
     TLBrace # TStr (units ''dinner'') # TColon # TLBrack # sep_tokens d @ TRBrack #
     TComma # TStr (units ''activity'') # TColon # TLBrack # sep_tokens a @ TRBrack #
     TComma # TStr (units ''mood'') # TColon # TLBrack # sep_tokens m @ [TRBrack, TRBrace]"

text \<open>The state of the invite state machine, in the words of the specification: an invite
  is used when its \<open>used_at\<close> is present; it has a selection when a row of \<open>selections\<close>
  refers to it.\<close>

definition has_selection :: "db \<Rightarrow> invite \<Rightarrow> bool" where
  "has_selection d i = list_ex (\<lambda>s. invite_id s = inv_id i) (selections d)"

definition used_iff_selection :: "db \<Rightarrow> bool" where
  "used_iff_selection d = list_all (\<lambda>i. (used_at i \<noteq> None) = has_selection d i) (invites d)"

definition used_has_selection :: "db \<Rightarrow> bool" where
  "used_has_selection d = list_all (\<lambda>i. used_at i = None \<or> has_selection d i) (invites d)"


text \<open>A concrete scenario: the date night "Friday" of the theme \<open>cottagecore-classic\<close> with
  the dinner options Soup and Pasta, one pending invite with the token \<open>T\<close>, and a request
  body with the three choices.\<close>

definition submission :: "string \<Rightarrow> string \<Rightarrow> string \<Rightarrow> string \<rightharpoonup> form_value" where
  "submission dinnerChoice activityChoice moodChoice =
     [''dinnerChoice'' \<mapsto> FStr dinnerChoice, ''activityChoice'' \<mapsto> FStr activityChoice,
      ''moodChoice'' \<mapsto> FStr moodChoice]"

definition ex_event :: date_night where
  "ex_event =
     \<lparr>dn_id = ''ev1'', title = ''Friday'', theme_id = ''cottagecore-classic'', date_iso = None,
      menu_json = JSON_stringify (menu_object [''Soup'', ''Pasta''] [''Board games''] [''Romantic'']),
      blurb = Some ''Warm bread, soft blankets, candlelight, and gentle joy.'',
      dn_created_at = ''2024-02-01T10:00:00.000Z''\<rparr>"

definition ex_invite :: invite where
  "ex_invite =
     \<lparr>inv_id = ''in1'', date_night_id = ''ev1'', token = ''T'',
      recipient_email = Some ''partner@example.org'', used_at = None,
      inv_created_at = ''2024-02-02T10:00:00.000Z''\<rparr>"

definition ex_db :: db where
  "ex_db = \<lparr>date_nights = [ex_event], invites = [ex_invite], selections = []\<rparr>"

definition ex_world :: world where
  "ex_world =
     \<lparr>process_env = [''PLANNER_EMAIL'' \<mapsto> ''planner@example.org'', ''RESEND_API_KEY'' \<mapsto> ''key''],
      now = ''2024-02-03T10:00:00.000Z'', nanoid12 = ''se1'', nanoid22 = ''T2'',
      select_invite_fault = False, select_date_night_fault = False,
      insert_fault = False, update_fault = False,
      insert_date_night_fault = False, insert_invite_fault = False, update_menu_fault = False,
      planner_fetch = Responds True 200 [], partner_fetch = Responds True 200 [],
      invite_fetch = Responds True 200 []\<rparr>"

definition ex_session :: session where
  "ex_session = \<lparr>isAdmin = False, flash = None\<rparr>"

text \<open>A selection already stored for that invite.\<close>

definition ex_selection :: selection where
  "ex_selection =
     \<lparr>sel_id = ''se0'', invite_id = ''in1'', dinner_choice = ''Soup'',
      activity_choice = ''Board games'', mood_choice = ''Romantic'', sel_notes = None,
      sel_created_at = ''2024-02-03T09:59:59.990Z''\<rparr>"

text \<open>An administrator's session, and the body of the Edit Menu form.\<close>

definition ex_admin :: session where
  "ex_admin = \<lparr>isAdmin = True, flash = None\<rparr>"

definition menu_form :: "string \<Rightarrow> string \<Rightarrow> string \<Rightarrow> string \<Rightarrow> string \<rightharpoonup> form_value" where
  "menu_form dinnerText activityText moodText blurbText =
     [''dinner'' \<mapsto> FStr dinnerText, ''activity'' \<mapsto> FStr activityText,
      ''mood'' \<mapsto> FStr moodText, ''blurb'' \<mapsto> FStr blurbText]"

text \<open>The scenario with a dinner option that starts with a space, as a date night created
  with a menu of its own can have.\<close>

definition ex_padded_db :: db where
  "ex_padded_db =
     ex_db\<lparr>date_nights :=
        [ex_event\<lparr>menu_json :=
           JSON_stringify (menu_object ['' Pasta''] [''Board games''] [''Romantic''])\<rparr>]\<rparr>"

text \<open>The forms that create the date night with a menu of its own and issue the invite.\<close>

definition new_form :: "string \<Rightarrow> string list \<Rightarrow> string list \<Rightarrow> string list \<Rightarrow> string \<rightharpoonup> form_value" where
  "new_form titleText d a m =
     [''title'' \<mapsto> FStr titleText, ''themeId'' \<mapsto> FStr ''cottagecore-classic'',
      ''menu'' \<mapsto> FObj [(''dinner'', FArr (map FStr d)), (''activity'', FArr (map FStr a)),
                        (''mood'', FArr (map FStr m))]]"

definition ex_empty_db :: db where
  "ex_empty_db = \<lparr>date_nights = [], invites = [], selections = []\<rparr>"

section \<open>The scenario is reachable\<close>

text \<open>Creating the date night with its own menu and issuing an invite for it, from the empty
  store, gives the store of the scenario. A menu sent with \<open>POST /admin/new\<close> is stored with
  its options untouched, also when an option starts with a space.\<close>

lemma form_json_menu:
  "form_json (FObj [(''dinner'', FArr (map FStr d)), (''activity'', FArr (map FStr a)),
                    (''mood'', FArr (map FStr m))]) = menu_object d a m"
  by (simp add: menu_object_def comp_def)

lemma scenario_reachable:
  "store (post_issue
            (ex_world\<lparr>now := ''2024-02-02T10:00:00.000Z'', nanoid12 := ''in1'', nanoid22 := ''T''\<rparr>)
            (store (post_new
                      (ex_world\<lparr>now := ''2024-02-01T10:00:00.000Z'', nanoid12 := ''ev1''\<rparr>)
                      ex_empty_db ex_admin
                      (Some (new_form ''Friday'' [''Soup'', ''Pasta''] [''Board games'']
                               [''Romantic'']))))
            ex_admin ''ev1'' (Some [''recipientEmail'' \<mapsto> FStr ''partner@example.org'']))
   = ex_db"
  by code_simp

lemma padded_scenario_reachable:
  "store (post_issue
            (ex_world\<lparr>now := ''2024-02-02T10:00:00.000Z'', nanoid12 := ''in1'', nanoid22 := ''T''\<rparr>)
            (store (post_new
                      (ex_world\<lparr>now := ''2024-02-01T10:00:00.000Z'', nanoid12 := ''ev1''\<rparr>)
                      ex_empty_db ex_admin
                      (Some (new_form ''Friday'' ['' Pasta''] [''Board games'']
                               [''Romantic'']))))
            ex_admin ''ev1'' (Some [''recipientEmail'' \<mapsto> FStr ''partner@example.org'']))
   = ex_padded_db"
  by code_simp

section \<open>The codec reads back the menus it writes\<close>

text \<open>\<open>JString\<close> and \<open>JObject\<close> behave as constructors on 8-bit texts.\<close>

lemma units_eq [simp]: "units a = units b \<longleftrightarrow> a = b"
proof
  assume "units a = units b"
  then show "a = b"
    unfolding units_def by (induction a arbitrary: b) auto
qed simp

lemma JString_eq [simp]: "JString a = JString b \<longleftrightarrow> a = b"
  by (simp add: JString_def)

lemma JString_distinct [simp]:
  "JString s \<noteq> JNull" "JString s \<noteq> JBool b" "JString s \<noteq> JNumber n"
  "JString s \<noteq> JArray xs" "JString s \<noteq> JObject kvs"
  "JNull \<noteq> JString s" "JBool b \<noteq> JString s" "JNumber n \<noteq> JString s"
  "JArray xs \<noteq> JString s" "JObject kvs \<noteq> JString s"
  by (simp_all add: JString_def JObject_def)

lemma JObject_distinct [simp]:
  "JObject kvs \<noteq> JNull" "JObject kvs \<noteq> JBool b" "JObject kvs \<noteq> JNumber n"
  "JObject kvs \<noteq> JArray xs"
  "JNull \<noteq> JObject kvs" "JBool b \<noteq> JObject kvs" "JNumber n \<noteq> JObject kvs"
  "JArray xs \<noteq> JObject kvs"
  by (simp_all add: JObject_def)

lemma map_of_units:
  "map_of (map (\<lambda>(k, v). (units k, v)) kvs) (units k) = map_of kvs k"
  by (induction kvs) auto

lemma js_get_JObject [simp]: "js_get (JObject kvs) k = map_of (rev kvs) k"
  using map_of_units [of "rev kvs" k] by (simp add: JObject_def rev_map)

text \<open>An escape of a code unit above \<open>0xFF\<close> is read as that unit.\<close>

lemma JSON_parse_wide_escape:
  \<open>JSON_parse (''{"dinner":["'' @ [CHR 0x5C] @ ''u2603 Soup"]}'')
   = Some (JObj [(units ''dinner'', JArray [JStr (9731 # units '' Soup'')])])\<close>
  by code_simp

lemma hex_val_hex_digit: "n < 16 \<Longrightarrow> hex_val (hex_digit n) = Some n"
proof -
  assume "n < 16"
  then have "n \<in> {0,1,2,3,4,5,6,7,8,9,10,11,12,13,14,15}" by simp arith
  then show ?thesis
    by (auto simp: hex_val_def hex_digit_def)
qed

lemma lex_string_quote_char:
  "lex_string (quote_char c @ rest) = map_option (apfst ((#) (of_char c))) (lex_string rest)"
proof -
  consider (ctl) "(of_char c :: nat) < 32" | (quo) "c = CHR 0x22" | (bsl) "c = CHR 0x5C"
    | (raw) "\<not> (of_char c :: nat) < 32" "c \<noteq> CHR 0x22" "c \<noteq> CHR 0x5C"
    by blast
  then show ?thesis
  proof cases
    case ctl
    have d: "(of_char c :: nat) div 16 < 16" "(of_char c :: nat) mod 16 < 16"
      using ctl by auto
    have h0: "hex_val CHR ''0'' = Some 0" by (simp add: hex_val_def)
    have v: "(of_char c :: nat) div 16 * 16 + of_char c mod 16 = of_char c" by simp
    have ne: "c \<noteq> CHR 0x22" "c \<noteq> CHR 0x5C" using ctl by auto
    show ?thesis
      using ctl ne v
      by (simp add: quote_char_def unescape_def hex4_def h0 hex_val_hex_digit [OF d(1)]
          hex_val_hex_digit [OF d(2)])
  next
    case quo then show ?thesis by (simp add: quote_char_def unescape_def)
  next
    case bsl then show ?thesis by (simp add: quote_char_def unescape_def)
  next
    case raw
    then have "quote_char c = [c]" by (auto simp: quote_char_def)
    then show ?thesis using raw by simp
  qed
qed

lemma quote_unit_of_char: "quote_unit (of_char c) = quote_char c"
  by (simp add: quote_unit_def)

lemma lex_string_quoted:
  "lex_string (concat (map quote_unit (units s)) @ CHR 0x22 # rest) = Some (units s, rest)"
  by (induction s) (simp_all add: units_def quote_unit_of_char lex_string_quote_char)


lemma tokenize_quoted:
  "tokenize (quote_string (units s) @ rest) = map_option ((#) (TStr (units s))) (tokenize rest)"
  by (simp add: quote_string_def json_ws_def lex_string_quoted)

lemma tokenize_punct:
  "tokenize (CHR ''['' # rest) = map_option ((#) TLBrack) (tokenize rest)"
  "tokenize (CHR '']'' # rest) = map_option ((#) TRBrack) (tokenize rest)"
  "tokenize (CHR ''{'' # rest) = map_option ((#) TLBrace) (tokenize rest)"
  "tokenize (CHR ''}'' # rest) = map_option ((#) TRBrace) (tokenize rest)"
  "tokenize (CHR '':'' # rest) = map_option ((#) TColon) (tokenize rest)"
  "tokenize (CHR '','' # rest) = map_option ((#) TComma) (tokenize rest)"
  by (simp_all add: json_ws_def)

lemma tokenize_strings:
  "tokenize (commas (map (\<lambda>x. quote_string (units x)) xs) @ rest)
   = map_option (\<lambda>ts. sep_tokens xs @ ts) (tokenize rest)"
proof (induction xs rule: sep_tokens.induct)
  case 1
  show ?case by (simp add: option.map_ident)
next
  case (2 x)
  show ?case by (simp add: tokenize_quoted)
next
  case (3 x y ys)
  have "tokenize (commas (map (\<lambda>x. quote_string (units x)) (x # y # ys)) @ rest)
        = tokenize (quote_string (units x) @
            CHR '','' # (commas (map (\<lambda>x. quote_string (units x)) (y # ys)) @ rest))"
    by simp
  also have "\<dots> = map_option ((#) (TStr (units x))) (map_option ((#) TComma)
                 (tokenize (commas (map (\<lambda>x. quote_string (units x)) (y # ys)) @ rest)))"
    by (simp only: tokenize_quoted tokenize_punct)
  also have "\<dots> = map_option (\<lambda>ts. sep_tokens (x # y # ys) @ ts) (tokenize rest)"
    by (simp only: 3) (simp add: option.map_comp comp_def)
  finally show ?case .
qed

lemma tokenize_string_array:
  "tokenize (JSON_stringify (JArray (map JString xs)) @ rest)
   = map_option (\<lambda>ts. TLBrack # sep_tokens xs @ TRBrack # ts) (tokenize rest)"
proof -
  have "JSON_stringify (JArray (map JString xs)) @ rest
        = CHR ''['' # (commas (map (\<lambda>x. quote_string (units x)) xs) @ CHR '']'' # rest)"
    by (simp add: comp_def JString_def)
  then show ?thesis
    by (simp only: tokenize_punct tokenize_strings) (simp add: option.map_comp comp_def)
qed

lemma tokenize_menu: "tokenize (JSON_stringify (menu_object d a m)) = Some (menu_tokens d a m)"
proof -
  have "JSON_stringify (menu_object d a m)
        = CHR ''{'' # (quote_string (units ''dinner'') @ CHR '':'' #
            (JSON_stringify (JArray (map JString d)) @
          CHR '','' # (quote_string (units ''activity'') @ CHR '':'' #
            (JSON_stringify (JArray (map JString a)) @
          CHR '','' # (quote_string (units ''mood'') @ CHR '':'' #
            (JSON_stringify (JArray (map JString m)) @
          CHR ''}'' # []))))))"
    by (simp add: menu_object_def JObject_def)
  then show ?thesis
    by (simp only: tokenize_punct tokenize_quoted tokenize_string_array tokenize.simps(1))
       (simp add: menu_tokens_def)
qed

lemma parse_strings:
  "parse_value (InArr acc # fs) (sep_tokens (x # xs) @ TRBrack # rest)
   = parse_after (JArray (acc @ map JString (x # xs))) fs rest"
proof (induction xs arbitrary: acc x)
  case Nil
  show ?case by (simp add: JString_def)
next
  case (Cons y ys)
  show ?case using Cons [of "acc @ [JString x]" y] by (simp add: JString_def)
qed

lemma parse_string_array:
  "parse_value fs (TLBrack # sep_tokens xs @ TRBrack # rest)
   = parse_after (JArray (map JString xs)) fs rest"
proof (cases xs)
  case Nil
  then show ?thesis by simp
next
  case (Cons x xs')
  have "sep_tokens (x # xs') @ TRBrack # rest \<noteq> []" by (cases xs') simp_all
  moreover have "hd (sep_tokens (x # xs') @ TRBrack # rest) = TStr (units x)"
    by (cases xs') simp_all
  ultimately obtain ts where ts: "sep_tokens (x # xs') @ TRBrack # rest = TStr (units x) # ts"
    by (cases "sep_tokens (x # xs') @ TRBrack # rest") auto
  have "parse_value fs (TLBrack # sep_tokens (x # xs') @ TRBrack # rest)
        = parse_value (InArr [] # fs) (sep_tokens (x # xs') @ TRBrack # rest)"
    by (simp add: ts)
  then show ?thesis using parse_strings [of "[]" fs x xs' rest] Cons by simp
qed

lemma parse_object_steps:
  "parse_value fs (TLBrace # TStr k # TColon # ts) = parse_value (InObj [] k # fs) ts"
  "parse_after v (InObj acc k # fs) (TComma # TStr k1 # TColon # ts)
   = parse_value (InObj (acc @ [(k, v)]) k1 # fs) ts"
  "parse_after v [InObj acc k] [TRBrace] = Some (JObj (acc @ [(k, v)]))"
  by simp_all

lemma parse_menu_tokens: "parse_value [] (menu_tokens d a m) = Some (menu_object d a m)"
proof -
  have "parse_value [] (menu_tokens d a m)
        = Some (JObj [(units ''dinner'', JArray (map JString d)),
                      (units ''activity'', JArray (map JString a)),
                      (units ''mood'', JArray (map JString m))])"
    unfolding menu_tokens_def
    by (simp only: parse_object_steps parse_string_array append_Cons append_Nil)
  then show ?thesis by (simp add: menu_object_def JObject_def)
qed

lemma JSON_parse_menu: "JSON_parse (JSON_stringify (menu_object d a m)) = Some (menu_object d a m)"
  by (simp add: JSON_parse_def tokenize_menu parse_menu_tokens)

lemma safeParseMenuJson_menu:
  "safeParseMenuJson (JSON_stringify (menu_object d a m))
   = \<lparr>dinner = map JString d, activity = map JString a, mood = map JString m\<rparr>"
  by (simp add: safeParseMenuJson_def JSON_parse_menu) (simp add: menu_object_def)

section \<open>Decoding a stored menu\<close>

text \<open>
  C9. \<open>safeParseMenuJson\<close> is total with a fallback to empty groups. On every text it
  returns the three groups. When \<open>JSON.parse\<close> throws (invalid JSON), every group is empty.
  When it returns a value, each group is the array stored under its key when there is one,
  and is empty when the key is absent or holds something that is not an array (which
  covers every value that is not an object).
\<close>

theorem safeParseMenuJson_fallback:
  "(JSON_parse s = None \<longrightarrow>
      safeParseMenuJson s = \<lparr>dinner = [], activity = [], mood = []\<rparr>) \<and>
   (\<forall>m. JSON_parse s = Some m \<longrightarrow>
      (\<forall>xs. js_get m ''dinner'' = Some (JArray xs) \<longrightarrow> dinner (safeParseMenuJson s) = xs) \<and>
      ((\<nexists>xs. js_get m ''dinner'' = Some (JArray xs)) \<longrightarrow> dinner (safeParseMenuJson s) = []) \<and>
      (\<forall>xs. js_get m ''activity'' = Some (JArray xs) \<longrightarrow> activity (safeParseMenuJson s) = xs) \<and>
      ((\<nexists>xs. js_get m ''activity'' = Some (JArray xs)) \<longrightarrow> activity (safeParseMenuJson s) = []) \<and>
      (\<forall>xs. js_get m ''mood'' = Some (JArray xs) \<longrightarrow> mood (safeParseMenuJson s) = xs) \<and>
      ((\<nexists>xs. js_get m ''mood'' = Some (JArray xs)) \<longrightarrow> mood (safeParseMenuJson s) = []))"
proof (cases "JSON_parse s")
  case None
  then show ?thesis by (simp add: safeParseMenuJson_def)
next
  case (Some m)
  have ae: "\<And>v. (\<nexists>xs. v = Some (JArray xs)) \<Longrightarrow> array_or_empty v = []"
  proof -
    fix v :: "json option"
    assume "\<nexists>xs. v = Some (JArray xs)"
    then show "array_or_empty v = []"
      by (cases v rule: array_or_empty.cases) simp_all
  qed
  show ?thesis using Some ae by (simp add: safeParseMenuJson_def)
qed


theorem safeParseMenuJson_fallback_witness:
  \<open>JSON_parse ''not json'' = None \<and>
   safeParseMenuJson ''not json'' = \<lparr>dinner = [], activity = [], mood = []\<rparr> \<and>
   JSON_parse ''42'' = Some (JNumber ''42'') \<and>
   safeParseMenuJson ''42'' = \<lparr>dinner = [], activity = [], mood = []\<rparr> \<and>
   JSON_parse ''{"dinner":"Soup","activity":["Walk",7],"mood":null}''
     = Some (JObject [(''dinner'', JString ''Soup''),
                      (''activity'', JArray [JString ''Walk'', JNumber ''7'']),
                      (''mood'', JNull)]) \<and>
   dinner (safeParseMenuJson ''{"dinner":"Soup","activity":["Walk",7],"mood":null}'') = [] \<and>
   activity (safeParseMenuJson ''{"dinner":"Soup","activity":["Walk",7],"mood":null}'')
     = [JString ''Walk'', JNumber ''7''] \<and>
   mood (safeParseMenuJson ''{"dinner":"Soup","activity":["Walk",7],"mood":null}'') = []\<close>
proof -
  let ?t = \<open>''{"dinner":"Soup","activity":["Walk",7],"mood":null}''\<close>
  let ?m = "JObject [(''dinner'', JString ''Soup''),
                      (''activity'', JArray [JString ''Walk'', JNumber ''7'']),
                      (''mood'', JNull)]"
  have p1: "JSON_parse ''not json'' = None" by code_simp
  have p2: "JSON_parse ''42'' = Some (JNumber ''42'')" by code_simp
  have p3: "JSON_parse ?t = Some ?m" by code_simp
  have g: "\<nexists>xs. js_get (JNumber ''42'') k = Some (JArray xs)" for k by simp
  have gd: "\<nexists>xs. js_get ?m ''dinner'' = Some (JArray xs)" by simp
  have ga: "js_get ?m ''activity'' = Some (JArray [JString ''Walk'', JNumber ''7''])" by simp
  have gm: "\<nexists>xs. js_get ?m ''mood'' = Some (JArray xs)" by simp
  have r1: "safeParseMenuJson ''not json'' = \<lparr>dinner = [], activity = [], mood = []\<rparr>"
    using safeParseMenuJson_fallback [of "''not json''"] p1 by blast
  have r2: "safeParseMenuJson ''42'' = \<lparr>dinner = [], activity = [], mood = []\<rparr>"
    using safeParseMenuJson_fallback [of "''42''"] p2 g by (intro groups.equality) auto
  have r3: "dinner (safeParseMenuJson ?t) = []"
    "activity (safeParseMenuJson ?t) = [JString ''Walk'', JNumber ''7'']"
    "mood (safeParseMenuJson ?t) = []"
    using safeParseMenuJson_fallback [of ?t] p3 gd ga gm by blast+
  show ?thesis using p1 p2 p3 r1 r2 r3 by simp
qed

section \<open>Validation of a submission\<close>

lemma ex_menu:
  "safeParseMenuJson (menu_json ex_event)
   = \<lparr>dinner = [JString ''Soup'', JString ''Pasta''], activity = [JString ''Board games''],
      mood = [JString ''Romantic'']\<rparr>"
  by (simp add: ex_event_def safeParseMenuJson_menu)

lemma array_includes_iff: "array_includes xs s \<longleftrightarrow> JString s \<in> set xs"
  by (simp add: array_includes_def)





section \<open>Recording a selection\<close>

lemma used_iff_imp: "used_iff_selection d \<Longrightarrow> used_has_selection d"
  by (auto simp: used_iff_selection_def used_has_selection_def list_all_iff)

lemma insert_keeps_used_has_selection:
  "used_has_selection d \<Longrightarrow> used_has_selection (d\<lparr>selections := selections d @ [row]\<rparr>)"
  by (auto simp: used_has_selection_def has_selection_def list_all_iff list_ex_iff)

lemma record_pair_keeps_used_iff:
  assumes "used_iff_selection d" "invite_id row = i"
  shows "used_iff_selection (update_invite_used_at (d\<lparr>selections := selections d @ [row]\<rparr>) t i)"
proof -
  let ?f = "\<lambda>r. if inv_id r = i then r\<lparr>used_at := Some t\<rparr> else r"
  have base: "(used_at r \<noteq> None) = (\<exists>s\<in>set (selections d). invite_id s = inv_id r)"
    if "r \<in> set (invites d)" for r
    using assms(1) that by (simp add: used_iff_selection_def has_selection_def list_all_iff list_ex_iff)
  have step: "(used_at (?f r) \<noteq> None)
              = (\<exists>s\<in>set (selections d @ [row]). invite_id s = inv_id (?f r))"
    if "r \<in> set (invites d)" for r
  proof (cases "inv_id r = i")
    case True
    then show ?thesis using assms(2) by simp
  next
    case False
    then show ?thesis using base [OF that] assms(2) by auto
  qed
  have main: "list_all (\<lambda>i. (used_at i \<noteq> None)
                             = list_ex (\<lambda>s. invite_id s = inv_id i) (selections d @ [row]))
                (map ?f (invites d))"
    unfolding list_all_iff list_ex_iff
  proof
    fix x
    assume "x \<in> set (map ?f (invites d))"
    then have "x \<in> ?f ` set (invites d)" by (simp only: set_map)
    then obtain r where r: "r \<in> set (invites d)" and x: "x = ?f r" by (rule imageE)
    show "(used_at x \<noteq> None) = (\<exists>s\<in>set (selections d @ [row]). invite_id s = inv_id x)"
      unfolding x using step [OF r] .
  qed
  show ?thesis
    using main
    by (simp add: used_iff_selection_def has_selection_def update_invite_used_at_def)
qed

lemma record_selection_used_has_selection:
  assumes "used_iff_selection d"
  shows "used_has_selection (snd (record_selection w d iv dc ac mc nt))"
proof -
  let ?row = "\<lparr>sel_id = nanoid12 w, invite_id = inv_id iv, dinner_choice = dc,
                activity_choice = ac, mood_choice = mc, sel_notes = nt, sel_created_at = now w\<rparr>"
  have a: "used_has_selection d" using assms by (rule used_iff_imp)
  have b: "used_has_selection (d\<lparr>selections := selections d @ [?row]\<rparr>)"
    using a by (rule insert_keeps_used_has_selection)
  have c: "used_has_selection
             (update_invite_used_at (d\<lparr>selections := selections d @ [?row]\<rparr>) (now w) (inv_id iv))"
    using record_pair_keeps_used_iff [OF assms, of ?row "inv_id iv" "now w"]
    by (simp add: used_iff_imp)
  show ?thesis using a b c by (simp add: record_selection_def insert_selection_def)
qed

lemma record_selection_used_iff:
  assumes "used_iff_selection d" "\<not> update_fault w"
  shows "used_iff_selection (snd (record_selection w d iv dc ac mc nt))"
proof -
  let ?row = "\<lparr>sel_id = nanoid12 w, invite_id = inv_id iv, dinner_choice = dc,
                activity_choice = ac, mood_choice = mc, sel_notes = nt, sel_created_at = now w\<rparr>"
  have c: "used_iff_selection
             (update_invite_used_at (d\<lparr>selections := selections d @ [?row]\<rparr>) (now w) (inv_id iv))"
    using record_pair_keeps_used_iff [OF assms(1), of ?row "inv_id iv" "now w"] by simp
  show ?thesis using assms c by (simp add: record_selection_def insert_selection_def)
qed

lemma post_invite_store:
  "store (post_invite w d s tok body) = d \<or>
   (\<exists>iv dc ac mc nt. store (post_invite w d s tok body) = snd (record_selection w d iv dc ac mc nt))"
proof (cases "select_invite_fault w \<or> select_date_night_fault w")
  case True
  then show ?thesis
    by (auto simp: post_invite_def split: option.splits)
next
  case nf: False
  show ?thesis
  proof (cases "select_invite_by_token d tok")
    case None
    then show ?thesis using nf by (simp add: post_invite_def)
  next
    case iv: (Some iv)
    show ?thesis
    proof (cases "select_date_night d (date_night_id iv)")
      case None
      then show ?thesis using nf iv by (simp add: post_invite_def)
    next
      case dn: (Some dn)
      show ?thesis
      proof (cases "getTheme (theme_id dn)")
        case None
        then show ?thesis using nf iv dn by (simp add: post_invite_def)
      next
        case th: (Some th)
        show ?thesis
        proof (cases body)
          case None
          then show ?thesis using nf iv dn th by (simp add: post_invite_def)
        next
          case (Some b)
          let ?rs = "record_selection w d iv (trim (field_text (b ''dinnerChoice'')))
                       (trim (field_text (b ''activityChoice'')))
                       (trim (field_text (b ''moodChoice'')))
                       (or_null (trim (field_text (b ''notes''))))"
          have "store (post_invite w d s tok body) = d \<or>
                store (post_invite w d s tok body) = snd ?rs"
            using nf iv dn th Some
            by (cases ?rs; cases "fst ?rs") (simp_all add: post_invite_def Let_def)
          then show ?thesis by blast
        qed
      qed
    qed
  qed
qed

text \<open>
  C1 (as amended). The handler inserts the selection and then marks the invite used, as
  two statements with no transaction around them. From a store where every invite is used
  exactly when it has a selection: after any run, complete or faulted, no invite is used
  without a selection; and after any run in which the \<open>UPDATE\<close> does not fail (every
  complete run among them), every invite is again used exactly when it has a selection.
\<close>

theorem record_never_used_without_selection:
  assumes "used_iff_selection d"
  shows "used_has_selection (store (post_invite w d s tok body)) \<and>
         (\<not> update_fault w \<longrightarrow> used_iff_selection (store (post_invite w d s tok body)))"
proof -
  from post_invite_store [of w d s tok body] show ?thesis
  proof (elim disjE exE)
    assume "store (post_invite w d s tok body) = d"
    then show ?thesis using assms used_iff_imp by simp
  next
    fix iv dc ac mc nt
    assume "store (post_invite w d s tok body) = snd (record_selection w d iv dc ac mc nt)"
    then show ?thesis
      using record_selection_used_has_selection [OF assms, of w iv dc ac mc nt]
        record_selection_used_iff [OF assms, of w iv dc ac mc nt]
      by simp
  qed
qed

text \<open>
  C1 as stated fails: when the \<open>UPDATE\<close> fails after the \<open>INSERT\<close> went through, the selection
  stays in the store and its invite is still pending.
\<close>

theorem selection_without_used_mark:
  "used_iff_selection ex_db \<and>
   post_invite (ex_world\<lparr>update_fault := True\<rparr>) ex_db ex_session ''T''
       (Some (submission ''Pasta'' ''Board games'' ''Romantic''))
     = \<lparr>response = Uncaught Sqlite_fault, session = ex_session,
        store = ex_db\<lparr>selections :=
                  [\<lparr>sel_id = ''se1'', invite_id = ''in1'', dinner_choice = ''Pasta'',
                    activity_choice = ''Board games'', mood_choice = ''Romantic'',
                    sel_notes = None, sel_created_at = ''2024-02-03T10:00:00.000Z''\<rparr>]\<rparr>,
        outbox = [], console = []\<rparr> \<and>
   \<not> used_iff_selection
       (store (post_invite (ex_world\<lparr>update_fault := True\<rparr>) ex_db ex_session ''T''
                 (Some (submission ''Pasta'' ''Board games'' ''Romantic''))))"
  by code_simp



text \<open>The amended C1 at the scenario, with and without the fault.\<close>

theorem record_never_used_without_selection_witness:
  "used_iff_selection ex_db \<and>
   used_has_selection
     (store (post_invite (ex_world\<lparr>update_fault := True\<rparr>) ex_db ex_session ''T''
               (Some (submission ''Pasta'' ''Board games'' ''Romantic'')))) \<and>
   \<not> update_fault ex_world \<and>
   used_iff_selection
     (store (post_invite ex_world ex_db ex_session ''T''
               (Some (submission ''Pasta'' ''Board games'' ''Romantic''))))"
proof -
  have h: "used_iff_selection ex_db" by code_simp
  have f: "\<not> update_fault ex_world" by code_simp
  show ?thesis
    using h f
      record_never_used_without_selection [OF h, of "ex_world\<lparr>update_fault := True\<rparr>"
        ex_session "''T''" "Some (submission ''Pasta'' ''Board games'' ''Romantic'')"]
      record_never_used_without_selection [OF h, of ex_world
        ex_session "''T''" "Some (submission ''Pasta'' ''Board games'' ''Romantic'')"]
    by blast
qed

section \<open>A second submission for the same invite\<close>

text \<open>
  C2 (as amended). When a selection already exists for the invite of the token, the
  handler creates no second selection and leaves the store as it was, and the request does
  not end in the thank-you page. It is reported as already used when the invite's used
  timestamp is set (and the lookup of the invite does not fault). When the timestamp is not
  set (the loser of a race reads the invite before the winner marks it) and the submission
  passes the other checks, the \<open>INSERT\<close> is rejected by the uniqueness constraint and that
  exception leaves the handler uncaught: it is not reported as already used.
\<close>

theorem second_selection_rejected:
  assumes "select_invite_by_token d tok = Some iv"
    and "has_selection d iv"
  shows "store (post_invite w d s tok rb) = d \<and>
         (\<forall>v st fl. response (post_invite w d s tok rb) \<noteq> Page v st fl) \<and>
         (truthy (used_at iv) \<and> \<not> select_invite_fault w \<longrightarrow>
            post_invite w d s tok rb
              = \<lparr>response = Redirect (''/invite/'' @ tok),
                 session = setFlash s (Flash Error Msg_already_used),
                 store = d, outbox = [], console = []\<rparr>) \<and>
         (\<not> truthy (used_at iv) \<and> \<not> insert_fault w \<and>
          \<not> select_invite_fault w \<and> \<not> select_date_night_fault w \<and> rb = Some body \<and>
          (\<exists>dn th. select_date_night d (date_night_id iv) = Some dn \<and>
             getTheme (theme_id dn) = Some th \<and>
             valid_selection (safeParseMenuJson (menu_json dn))
               (trim (field_text (body ''dinnerChoice'')))
               (trim (field_text (body ''activityChoice'')))
               (trim (field_text (body ''moodChoice'')))) \<longrightarrow>
            post_invite w d s tok rb
              = \<lparr>response = Uncaught Sqlite_constraint, session = s,
                 store = d, outbox = [], console = []\<rparr>)"
proof -
  have rs: "record_selection w d iv dc ac mc nt
            = (Some (if insert_fault w then Sqlite_fault else Sqlite_constraint), d)"
    for dc ac mc nt
    using assms(2)
    by (auto simp: record_selection_def insert_selection_def has_selection_def list_ex_iff)
  show ?thesis
  proof (cases "select_invite_fault w")
    case True
    then show ?thesis by (simp add: post_invite_def)
  next
    case f1: False
    show ?thesis
    proof (cases "truthy (used_at iv)")
      case True
      then show ?thesis using assms(1) f1 by (simp add: post_invite_def)
    next
      case False
      show ?thesis
      proof (cases "select_date_night_fault w")
        case True
        then show ?thesis using assms(1) f1 False by (simp add: post_invite_def)
      next
        case f2: False
        show ?thesis
        proof (cases "select_date_night d (date_night_id iv)")
          case None
          then show ?thesis using assms(1) f1 f2 False by (simp add: post_invite_def)
        next
          case dn: (Some dn)
          show ?thesis
          proof (cases "getTheme (theme_id dn)")
            case None
            then show ?thesis using assms(1) f1 f2 False dn by (simp add: post_invite_def)
          next
            case th: (Some th)
            show ?thesis
            proof (cases rb)
              case None
              then show ?thesis using assms(1) f1 f2 False dn th by (simp add: post_invite_def)
            next
              case (Some b)
              then show ?thesis
                using assms(1) f1 f2 False dn th rs by (simp add: post_invite_def Let_def)
            qed
          qed
        qed
      qed
    qed
  qed
qed


text \<open>The amended C2 at the scenario: the invite still pending, and the invite marked used.\<close>

theorem second_selection_rejected_witness:
  "select_invite_by_token (ex_db\<lparr>selections := [ex_selection]\<rparr>) ''T'' = Some ex_invite \<and>
   has_selection (ex_db\<lparr>selections := [ex_selection]\<rparr>) ex_invite \<and>
   \<not> truthy (used_at ex_invite) \<and> \<not> insert_fault ex_world \<and>
   \<not> select_invite_fault ex_world \<and> \<not> select_date_night_fault ex_world \<and>
   store (post_invite ex_world (ex_db\<lparr>selections := [ex_selection]\<rparr>) ex_session ''T''
            (Some (submission ''Pasta'' ''Board games'' ''Romantic'')))
     = ex_db\<lparr>selections := [ex_selection]\<rparr> \<and>
   response (post_invite ex_world (ex_db\<lparr>selections := [ex_selection]\<rparr>) ex_session ''T''
            (Some (submission ''Pasta'' ''Board games'' ''Romantic'')))
     = Uncaught Sqlite_constraint \<and>
   select_invite_by_token
       \<lparr>date_nights = [ex_event], invites = [ex_invite\<lparr>used_at := Some (now ex_world)\<rparr>],
        selections = [ex_selection]\<rparr> ''T''
     = Some (ex_invite\<lparr>used_at := Some (now ex_world)\<rparr>) \<and>
   truthy (used_at (ex_invite\<lparr>used_at := Some (now ex_world)\<rparr>)) \<and>
   post_invite ex_world
       \<lparr>date_nights = [ex_event], invites = [ex_invite\<lparr>used_at := Some (now ex_world)\<rparr>],
        selections = [ex_selection]\<rparr> ex_session ''T''
       (Some (submission ''Pasta'' ''Board games'' ''Romantic''))
     = \<lparr>response = Redirect ''/invite/T'',
        session = setFlash ex_session (Flash Error Msg_already_used),
        store = \<lparr>date_nights = [ex_event],
                 invites = [ex_invite\<lparr>used_at := Some (now ex_world)\<rparr>],
                 selections = [ex_selection]\<rparr>,
        outbox = [], console = []\<rparr>"
proof -
  let ?raced = "ex_db\<lparr>selections := [ex_selection]\<rparr>"
  let ?iu = "ex_invite\<lparr>used_at := Some (now ex_world)\<rparr>"
  let ?used = "\<lparr>date_nights = [ex_event], invites = [?iu], selections = [ex_selection]\<rparr>"
  let ?sub = "submission ''Pasta'' ''Board games'' ''Romantic''"
  have a1: "select_invite_by_token ?raced ''T'' = Some ex_invite" by code_simp
  have a2: "has_selection ?raced ex_invite" by code_simp
  have a3: "\<not> truthy (used_at ex_invite)" by code_simp
  have a4: "\<not> insert_fault ex_world" by code_simp
  have nf: "\<not> select_invite_fault ex_world" "\<not> select_date_night_fault ex_world"
    by code_simp+
  have a5: "select_date_night ?raced (date_night_id ex_invite) = Some ex_event" by code_simp
  have a6: "getTheme (theme_id ex_event) = Some (hd THEMES)" by code_simp
  have a7: "valid_selection (safeParseMenuJson (menu_json ex_event))
              (trim (field_text (?sub ''dinnerChoice'')))
              (trim (field_text (?sub ''activityChoice'')))
              (trim (field_text (?sub ''moodChoice'')))"
    by code_simp
  have b1: "select_invite_by_token ?used ''T'' = Some ?iu" by code_simp
  have b2: "has_selection ?used ?iu" by code_simp
  have b3: "truthy (used_at ?iu)" by code_simp
  note raced = second_selection_rejected [OF a1 a2, of ex_world ex_session "Some ?sub" ?sub]
  note used = second_selection_rejected [OF b1 b2, of ex_world ex_session "Some ?sub" ?sub]
  have r1: "store (post_invite ex_world ?raced ex_session ''T'' (Some ?sub)) = ?raced"
    using raced by blast
  have "post_invite ex_world ?raced ex_session ''T'' (Some ?sub)
        = \<lparr>response = Uncaught Sqlite_constraint, session = ex_session,
           store = ?raced, outbox = [], console = []\<rparr>"
    using raced a3 a4 nf a5 a6 a7 by blast
  then have r2: "response (post_invite ex_world ?raced ex_session ''T'' (Some ?sub))
                 = Uncaught Sqlite_constraint"
    by simp
  have r3: "post_invite ex_world ?used ex_session ''T'' (Some ?sub)
            = \<lparr>response = Redirect (''/invite/'' @ ''T''),
               session = setFlash ex_session (Flash Error Msg_already_used),
               store = ?used, outbox = [], console = []\<rparr>"
    using used b3 nf by blast
  show ?thesis
    using a1 a2 a3 a4 nf r1 r2 b1 b3 r3 by simp
qed

text \<open>
  C2 as stated fails: with a selection stored and the invite still pending, the answer is
  the uncaught constraint violation, not the already-used message.
\<close>

theorem losing_submission_uncaught:
  "select_invite_by_token (ex_db\<lparr>selections := [ex_selection]\<rparr>) ''T'' = Some ex_invite \<and>
   has_selection (ex_db\<lparr>selections := [ex_selection]\<rparr>) ex_invite \<and>
   post_invite ex_world (ex_db\<lparr>selections := [ex_selection]\<rparr>) ex_session ''T''
       (Some (submission ''Pasta'' ''Board games'' ''Romantic''))
     = \<lparr>response = Uncaught Sqlite_constraint, session = ex_session,
        store = ex_db\<lparr>selections := [ex_selection]\<rparr>, outbox = [], console = []\<rparr>"
  by code_simp

section \<open>The failures of the invite page\<close>


text \<open>A request whose body was not parsed fails where the handler reads the first field.\<close>

lemma post_invite_without_body:
  "post_invite ex_world ex_db ex_session ''T'' None
     = \<lparr>response = Uncaught TypeError, session = ex_session, store = ex_db,
        outbox = [], console = []\<rparr>"
  by code_simp





section \<open>Notifications after a recorded selection\<close>

lemma fetch_irrelevant:
  "record_selection (w\<lparr>planner_fetch := pf, partner_fetch := qf\<rparr>) = record_selection w"
  "plannerEmail (w\<lparr>planner_fetch := pf, partner_fetch := qf\<rparr>) = plannerEmail w"
  "baseUrl (w\<lparr>planner_fetch := pf, partner_fetch := qf\<rparr>) = baseUrl w"
  by (simp_all add: record_selection_def plannerEmail_def baseUrl_def env_or_def fun_eq_iff
      split: sum.split)

lemma record_selection_commits:
  assumes "record_selection w d iv dc ac mc nt = (None, d2)"
  shows "has_selection d2 iv"
    and "list_all (\<lambda>i. inv_id i \<noteq> inv_id iv \<or> used_at i = Some (now w)) (invites d2)"
proof -
  let ?row = "\<lparr>sel_id = nanoid12 w, invite_id = inv_id iv, dinner_choice = dc,
                activity_choice = ac, mood_choice = mc, sel_notes = nt, sel_created_at = now w\<rparr>"
  have d2: "d2 = update_invite_used_at (d\<lparr>selections := selections d @ [?row]\<rparr>) (now w) (inv_id iv)"
    using assms
    by (simp add: record_selection_def insert_selection_def split: if_splits)
  show "has_selection d2 iv"
    by (simp add: d2 has_selection_def update_invite_used_at_def)
  show "list_all (\<lambda>i. inv_id i \<noteq> inv_id iv \<or> used_at i = Some (now w)) (invites d2)"
    by (auto simp: d2 update_invite_used_at_def list_all_iff)
qed

text \<open>
  C6. Once the selection is recorded (the invite was pending, its date night and theme
  exist, the choices are valid and the storage statements went through), then whatever
  happens to the two email requests: the answer is the thank-you page; the store is the
  one the two statements left, with the selection and the used mark; the planner summary
  is handed to \<open>sendEmail\<close> exactly when a planner address is configured, and the
  confirmation exactly when the invite has a recipient address, each whether or not the
  other failed; a failure of either only adds a console line. Without a planner address
  nothing is sent and a notice is written to the console, with no failure.
\<close>

theorem notification_failures_isolated:
  assumes "select_invite_by_token d tok = Some iv"
    and "\<not> truthy (used_at iv)"
    and "select_date_night d (date_night_id iv) = Some dn"
    and "getTheme (theme_id dn) = Some th"
    and "dc = trim (field_text (body ''dinnerChoice''))"
    and "ac = trim (field_text (body ''activityChoice''))"
    and "mc = trim (field_text (body ''moodChoice''))"
    and "nt = or_null (trim (field_text (body ''notes'')))"
    and "valid_selection (safeParseMenuJson (menu_json dn)) dc ac mc"
    and "record_selection w d iv dc ac mc nt = (None, d2)"
    and "w' = w\<lparr>planner_fetch := pf, partner_fetch := qf\<rparr>"
    and "\<not> select_invite_fault w" "\<not> select_date_night_fault w"
  shows "response (post_invite w' d s tok (Some body)) = Page ''thanks'' None (flash s) \<and>
         store (post_invite w' d s tok (Some body)) = d2 \<and>
         has_selection (store (post_invite w' d s tok (Some body))) iv \<and>
         list_all (\<lambda>i. inv_id i \<noteq> inv_id iv \<or> used_at i = Some (now w))
           (invites (store (post_invite w' d s tok (Some body)))) \<and>
         outbox (post_invite w' d s tok (Some body))
           = (if plannerEmail w = [] then []
              else [\<lparr>mail_to = plannerEmail w,
                     mail_content = PlannerEmail (title dn) (th_name th)
                                      (baseUrl w @ ''/invite/'' @ tok) dc ac mc nt\<rparr>]) @
             (if truthy (recipient_email iv)
              then [\<lparr>mail_to = text_of (recipient_email iv),
                     mail_content = PartnerConfirmationEmail (title dn) (th_name th)\<rparr>]
              else []) \<and>
         console (post_invite w' d s tok (Some body))
           = (if plannerEmail w = [] then [Planner_email_missing]
              else (case sendEmail w' pf of Inl e \<Rightarrow> [Planner_email_failed e] | Inr _ \<Rightarrow> [])) @
             (if truthy (recipient_email iv)
              then (case sendEmail w' qf of Inl e \<Rightarrow> [Partner_email_failed e] | Inr _ \<Rightarrow> [])
              else [])"
proof -
  have rs: "record_selection w' d iv dc ac mc nt = (None, d2)"
    using assms(10) by (simp add: assms(11) fetch_irrelevant)
  have pe: "plannerEmail w' = plannerEmail w" "baseUrl w' = baseUrl w"
    "planner_fetch w' = pf" "partner_fetch w' = qf"
    by (simp_all add: assms(11) fetch_irrelevant)
  have nf: "\<not> select_invite_fault w'" "\<not> select_date_night_fault w'"
    using assms(12,13) by (simp_all add: assms(11))
  have r: "post_invite w' d s tok (Some body)
           = \<lparr>response = fst (renderPage s ''thanks'' None None),
              session = snd (renderPage s ''thanks'' None None), store = d2,
              outbox = fst (notify_planner w' dn th tok dc ac mc nt) @ fst (notify_partner w' iv dn th),
              console = snd (notify_planner w' dn th tok dc ac mc nt) @ snd (notify_partner w' iv dn th)\<rparr>"
    using assms(1-4) assms(9) rs nf
    by (simp add: post_invite_def Let_def assms(5-8) [symmetric])
  show ?thesis
    unfolding r
    using record_selection_commits [OF assms(10)]
    by (simp add: renderPage_def notify_planner_def notify_partner_def Let_def pe)
qed


text \<open>C6 at the scenario, with the planner request answered 500 and the confirmation
  request rejected.\<close>

theorem notification_failures_isolated_witness:
  "select_invite_by_token ex_db ''T'' = Some ex_invite \<and>
   \<not> truthy (used_at ex_invite) \<and>
   select_date_night ex_db (date_night_id ex_invite) = Some ex_event \<and>
   getTheme (theme_id ex_event) = Some (hd THEMES) \<and>
   valid_selection (safeParseMenuJson (menu_json ex_event)) ''Pasta'' ''Board games'' ''Romantic'' \<and>
   record_selection ex_world ex_db ex_invite ''Pasta'' ''Board games'' ''Romantic'' None
     = (None,
        \<lparr>date_nights = [ex_event],
         invites = [ex_invite\<lparr>used_at := Some (now ex_world)\<rparr>],
         selections = [\<lparr>sel_id = ''se1'', invite_id = ''in1'', dinner_choice = ''Pasta'',
                        activity_choice = ''Board games'', mood_choice = ''Romantic'',
                        sel_notes = None, sel_created_at = now ex_world\<rparr>]\<rparr>) \<and>
   response (post_invite
               (ex_world\<lparr>planner_fetch := Responds False 500 ''down'',
                          partner_fetch := Rejects ''timeout''\<rparr>)
               ex_db ex_session ''T'' (Some (submission ''Pasta'' ''Board games'' ''Romantic'')))
     = Page ''thanks'' None None \<and>
   store (post_invite
            (ex_world\<lparr>planner_fetch := Responds False 500 ''down'',
                       partner_fetch := Rejects ''timeout''\<rparr>)
            ex_db ex_session ''T'' (Some (submission ''Pasta'' ''Board games'' ''Romantic'')))
     = \<lparr>date_nights = [ex_event],
        invites = [ex_invite\<lparr>used_at := Some (now ex_world)\<rparr>],
        selections = [\<lparr>sel_id = ''se1'', invite_id = ''in1'', dinner_choice = ''Pasta'',
                       activity_choice = ''Board games'', mood_choice = ''Romantic'',
                       sel_notes = None, sel_created_at = now ex_world\<rparr>]\<rparr> \<and>
   has_selection
     (store (post_invite
               (ex_world\<lparr>planner_fetch := Responds False 500 ''down'',
                          partner_fetch := Rejects ''timeout''\<rparr>)
               ex_db ex_session ''T'' (Some (submission ''Pasta'' ''Board games'' ''Romantic''))))
     ex_invite \<and>
   outbox (post_invite
             (ex_world\<lparr>planner_fetch := Responds False 500 ''down'',
                        partner_fetch := Rejects ''timeout''\<rparr>)
             ex_db ex_session ''T'' (Some (submission ''Pasta'' ''Board games'' ''Romantic'')))
     = [\<lparr>mail_to = ''planner@example.org'',
         mail_content = PlannerEmail ''Friday'' ''Cottagecore Classic''
                          ''http://localhost:3000/invite/T'' ''Pasta'' ''Board games''
                          ''Romantic'' None\<rparr>,
        \<lparr>mail_to = ''partner@example.org'',
         mail_content = PartnerConfirmationEmail ''Friday'' ''Cottagecore Classic''\<rparr>] \<and>
   console (post_invite
              (ex_world\<lparr>planner_fetch := Responds False 500 ''down'',
                         partner_fetch := Rejects ''timeout''\<rparr>)
              ex_db ex_session ''T'' (Some (submission ''Pasta'' ''Board games'' ''Romantic'')))
     = [Planner_email_failed (Resend_failed 500 ''down''),
        Partner_email_failed (Fetch_rejected ''timeout'')]"
proof -
  let ?sub = "submission ''Pasta'' ''Board games'' ''Romantic''"
  let ?w = "ex_world\<lparr>planner_fetch := Responds False 500 ''down'',
                      partner_fetch := Rejects ''timeout''\<rparr>"
  let ?d2 = "\<lparr>date_nights = [ex_event],
         invites = [ex_invite\<lparr>used_at := Some (now ex_world)\<rparr>],
         selections = [\<lparr>sel_id = ''se1'', invite_id = ''in1'', dinner_choice = ''Pasta'',
                        activity_choice = ''Board games'', mood_choice = ''Romantic'',
                        sel_notes = None, sel_created_at = now ex_world\<rparr>]\<rparr>"
  have h1: "select_invite_by_token ex_db ''T'' = Some ex_invite" by code_simp
  have h2: "\<not> truthy (used_at ex_invite)" by code_simp
  have h3: "select_date_night ex_db (date_night_id ex_invite) = Some ex_event" by code_simp
  have h4: "getTheme (theme_id ex_event) = Some (hd THEMES)" by code_simp
  have h5: "''Pasta'' = trim (field_text (?sub ''dinnerChoice''))" by code_simp
  have h6: "''Board games'' = trim (field_text (?sub ''activityChoice''))" by code_simp
  have h7: "''Romantic'' = trim (field_text (?sub ''moodChoice''))" by code_simp
  have h8: "None = or_null (trim (field_text (?sub ''notes'')))" by code_simp
  have h9: "valid_selection (safeParseMenuJson (menu_json ex_event)) ''Pasta'' ''Board games'' ''Romantic''"
    by (simp add: ex_menu valid_selection_def array_includes_iff)
  have h10: "record_selection ex_world ex_db ex_invite ''Pasta'' ''Board games'' ''Romantic'' None
             = (None, ?d2)"
    by code_simp
  have e1: "plannerEmail ex_world = ''planner@example.org''" by code_simp
  have e2: "baseUrl ex_world = ''http://localhost:3000''" by code_simp
  have e3: "truthy (recipient_email ex_invite)" by code_simp
  have e4: "text_of (recipient_email ex_invite) = ''partner@example.org''" by code_simp
  have e5: "title ex_event = ''Friday''" "th_name (hd THEMES) = ''Cottagecore Classic''"
    by code_simp+
  have e6: "sendEmail ?w (Responds False 500 ''down'') = Inl (Resend_failed 500 ''down'')"
    "sendEmail ?w (Rejects ''timeout'') = Inl (Fetch_rejected ''timeout'')"
    by code_simp+
  have e7: "flash ex_session = None" by code_simp
  have e8: "has_selection ?d2 ex_invite" by code_simp
  have nf: "\<not> select_invite_fault ex_world" "\<not> select_date_night_fault ex_world"
    by code_simp+
  note t = notification_failures_isolated [OF h1 h2 h3 h4 h5 h6 h7 h8 h9 h10 refl nf,
      where pf = "Responds False 500 ''down''" and qf = "Rejects ''timeout''" and s = ex_session]
  show ?thesis
    using h1 h2 h3 h4 h9 h10 t by (simp add: e1 e2 e3 e4 e5 e6 e7 e8)
qed

section \<open>Editing a menu\<close>

lemma select_after_menu_update:
  "select_date_night (update_date_night_menu d mj b i) i
   = map_option (\<lambda>r. r\<lparr>menu_json := mj, blurb := b\<rparr>) (select_date_night d i)"
proof -
  have "find (\<lambda>r. dn_id r = i) (map (\<lambda>r. if dn_id r = i then r\<lparr>menu_json := mj, blurb := b\<rparr> else r) xs)
        = map_option (\<lambda>r. r\<lparr>menu_json := mj, blurb := b\<rparr>) (find (\<lambda>r. dn_id r = i) xs)" for xs
    by (induction xs) simp_all
  then show ?thesis by (simp add: select_date_night_def update_date_night_menu_def)
qed





section \<open>The menu is read when the selection is recorded\<close>

lemma array_includes_strings: "array_includes (map JString xs) s \<longleftrightarrow> s \<in> set xs"
  by (auto simp: array_includes_def)

lemma record_selection_fresh:
  assumes "\<not> insert_fault w" "\<not> update_fault w"
    and "\<not> list_ex (\<lambda>s. sel_id s = nanoid12 w \<or> invite_id s = inv_id iv) (selections d)"
  shows "record_selection w d iv dc ac mc nt
         = (None,
            update_invite_used_at
              (d\<lparr>selections := selections d @
                   [\<lparr>sel_id = nanoid12 w, invite_id = inv_id iv, dinner_choice = dc,
                     activity_choice = ac, mood_choice = mc, sel_notes = nt,
                     sel_created_at = now w\<rparr>]\<rparr>)
              (now w) (inv_id iv))"
  using assms by (simp add: record_selection_def insert_selection_def)

lemma post_invite_recorded:
  assumes "select_invite_by_token d tok = Some iv"
    and "\<not> truthy (used_at iv)"
    and "select_date_night d (date_night_id iv) = Some dn"
    and "getTheme (theme_id dn) = Some th"
    and "valid_selection (safeParseMenuJson (menu_json dn))
           (trim (field_text (body ''dinnerChoice'')))
           (trim (field_text (body ''activityChoice'')))
           (trim (field_text (body ''moodChoice'')))"
    and "\<not> insert_fault w" "\<not> update_fault w"
    and "\<not> list_ex (\<lambda>s. sel_id s = nanoid12 w \<or> invite_id s = inv_id iv) (selections d)"
    and "\<not> select_invite_fault w" "\<not> select_date_night_fault w"
  shows "response (post_invite w d s tok (Some body)) = Page ''thanks'' None (flash s)"
    and "selections (store (post_invite w d s tok (Some body)))
         = selections d @
           [\<lparr>sel_id = nanoid12 w, invite_id = inv_id iv,
             dinner_choice = trim (field_text (body ''dinnerChoice'')),
             activity_choice = trim (field_text (body ''activityChoice'')),
             mood_choice = trim (field_text (body ''moodChoice'')),
             sel_notes = or_null (trim (field_text (body ''notes''))),
             sel_created_at = now w\<rparr>]"
  using assms(1-5) assms(9,10) record_selection_fresh [OF assms(6-8)]
  by (simp_all add: post_invite_def Let_def renderPage_def update_invite_used_at_def)

text \<open>
  C4. A submission is validated against the menu stored when it is recorded. Take a
  pending invite of a date night whose dinner group contains "Pasta", and let an
  administrator then edit the menu so that the dinner group holds "Tacos" and no longer
  "Pasta". A submission of the invite with the dinner choice "Pasta" is then answered with
  the invalid-selection message and changes nothing, and one with the dinner choice
  "Tacos" (its other two choices in the edited menu, the storage statements going
  through) ends in the thank-you page with the selection recorded.
\<close>

theorem menu_edit_is_live:
  assumes "isAdmin adm"
    and "select_invite_by_token d tok = Some iv"
    and "\<not> truthy (used_at iv)"
    and "select_date_night d (date_night_id iv) = Some dn"
    and "getTheme (theme_id dn) = Some th"
    and "array_includes (dinner (safeParseMenuJson (menu_json dn))) ''Pasta''"
    and "dl = parseLines (field_text (edit ''dinner''))"
    and "al = parseLines (field_text (edit ''activity''))"
    and "ml = parseLines (field_text (edit ''mood''))"
    and "''Tacos'' \<in> set dl" "''Pasta'' \<notin> set dl"
    and "d1 = store (post_menu wm d adm (date_night_id iv) (Some edit))"
    and "pasta ''dinnerChoice'' = Some (FStr ''Pasta'')"
    and "trim (field_text (pasta ''activityChoice'')) \<in> set al"
    and "trim (field_text (pasta ''moodChoice'')) \<in> set ml"
    and "tacos ''dinnerChoice'' = Some (FStr ''Tacos'')"
    and "trim (field_text (tacos ''activityChoice'')) \<in> set al"
    and "trim (field_text (tacos ''moodChoice'')) \<in> set ml"
    and "\<not> insert_fault w" "\<not> update_fault w"
    and "\<not> list_ex (\<lambda>s. sel_id s = nanoid12 w \<or> invite_id s = inv_id iv) (selections d)"
    and "\<not> select_date_night_fault wm" "\<not> update_menu_fault wm"
    and "\<not> select_invite_fault w" "\<not> select_date_night_fault w"
  shows "post_invite w d1 s tok (Some pasta)
           = \<lparr>response = Redirect (''/invite/'' @ tok),
              session = setFlash s (Flash Error Msg_invalid_choices),
              store = d1, outbox = [], console = []\<rparr> \<and>
         response (post_invite w d1 s tok (Some tacos)) = Page ''thanks'' None (flash s) \<and>
         has_selection (store (post_invite w d1 s tok (Some tacos))) iv"
proof -
  let ?mj = "JSON_stringify (menu_object dl al ml)"
  let ?b = "or_null (trim (field_text (edit ''blurb'')))"
  let ?dn1 = "dn\<lparr>menu_json := ?mj, blurb := ?b\<rparr>"
  have ne: "dl \<noteq> []" "al \<noteq> []" "ml \<noteq> []"
    using assms(10) assms(14) assms(15) by auto
  have d1: "d1 = update_date_night_menu d ?mj ?b (date_night_id iv)"
    using assms(1) assms(4) ne assms(22,23)
    by (simp add: assms(12) post_menu_def Let_def assms(7-9) [symmetric])
  have iv1: "select_invite_by_token d1 tok = Some iv"
    using assms(2) by (simp add: d1 select_invite_by_token_def update_date_night_menu_def)
  have dn1: "select_date_night d1 (date_night_id iv) = Some ?dn1"
    by (simp add: d1 select_after_menu_update assms(4))
  have th1: "getTheme (theme_id ?dn1) = Some th"
    using assms(5) by simp
  have sel1: "selections d1 = selections d"
    by (simp add: d1 update_date_night_menu_def)
  have tp: "trim ''Pasta'' = ''Pasta''" "trim ''Tacos'' = ''Tacos''"
    by (simp_all add: trim_def js_whitespace_def)
  have bad: "\<not> valid_selection (safeParseMenuJson (menu_json ?dn1))
               (trim (field_text (pasta ''dinnerChoice'')))
               (trim (field_text (pasta ''activityChoice'')))
               (trim (field_text (pasta ''moodChoice'')))"
    using assms(11)
    by (simp add: safeParseMenuJson_menu valid_selection_def array_includes_strings assms(13)
        field_text_def tp)
  have good: "valid_selection (safeParseMenuJson (menu_json ?dn1))
               (trim (field_text (tacos ''dinnerChoice'')))
               (trim (field_text (tacos ''activityChoice'')))
               (trim (field_text (tacos ''moodChoice'')))"
    using assms(10) assms(17) assms(18)
    by (simp add: safeParseMenuJson_menu valid_selection_def array_includes_strings assms(16)
        field_text_def tp)
  have fresh1: "\<not> list_ex (\<lambda>s. sel_id s = nanoid12 w \<or> invite_id s = inv_id iv) (selections d1)"
    using assms(21) by (simp add: sel1)
  have r1: "post_invite w d1 s tok (Some pasta)
           = \<lparr>response = Redirect (''/invite/'' @ tok),
              session = setFlash s (Flash Error Msg_invalid_choices),
              store = d1, outbox = [], console = []\<rparr>"
    using iv1 assms(3) dn1 th1 bad assms(24,25) by (simp add: post_invite_def Let_def)
  note rec = post_invite_recorded [OF iv1 assms(3) dn1 th1 good assms(19) assms(20) fresh1
      assms(24) assms(25), of s]
  have r3: "has_selection (store (post_invite w d1 s tok (Some tacos))) iv"
    by (simp add: has_selection_def rec(2))
  show ?thesis using r1 rec(1) r3 by simp
qed


text \<open>C4 at the scenario: dinner options Soup and Pasta, edited to Soup and Tacos.\<close>

theorem menu_edit_is_live_witness:
  "array_includes (dinner (safeParseMenuJson (menu_json ex_event))) ''Pasta'' \<and>
   parseLines (field_text (menu_form (''Soup'' @ [CHR 0x0A] @ ''Tacos'') ''Board games''
                              ''Romantic'' [] ''dinner''))
     = [''Soup'', ''Tacos''] \<and>
   post_invite ex_world
       (store (post_menu ex_world ex_db ex_admin ''ev1''
                 (Some (menu_form (''Soup'' @ [CHR 0x0A] @ ''Tacos'') ''Board games'' ''Romantic'' []))))
       ex_session ''T'' (Some (submission ''Pasta'' ''Board games'' ''Romantic''))
     = \<lparr>response = Redirect ''/invite/T'',
        session = setFlash ex_session (Flash Error Msg_invalid_choices),
        store = store (post_menu ex_world ex_db ex_admin ''ev1''
                  (Some (menu_form (''Soup'' @ [CHR 0x0A] @ ''Tacos'') ''Board games'' ''Romantic'' []))),
        outbox = [], console = []\<rparr> \<and>
   response
       (post_invite ex_world
          (store (post_menu ex_world ex_db ex_admin ''ev1''
                    (Some (menu_form (''Soup'' @ [CHR 0x0A] @ ''Tacos'') ''Board games'' ''Romantic'' []))))
          ex_session ''T'' (Some (submission ''Tacos'' ''Board games'' ''Romantic'')))
     = Page ''thanks'' None None \<and>
   has_selection
       (store (post_invite ex_world
          (store (post_menu ex_world ex_db ex_admin ''ev1''
                    (Some (menu_form (''Soup'' @ [CHR 0x0A] @ ''Tacos'') ''Board games'' ''Romantic'' []))))
          ex_session ''T'' (Some (submission ''Tacos'' ''Board games'' ''Romantic''))))
       ex_invite"
proof -
  let ?edit = "menu_form (''Soup'' @ [CHR 0x0A] @ ''Tacos'') ''Board games'' ''Romantic'' []"
  let ?pasta = "submission ''Pasta'' ''Board games'' ''Romantic''"
  let ?tacos = "submission ''Tacos'' ''Board games'' ''Romantic''"
  have h1: "isAdmin ex_admin" by code_simp
  have h2: "select_invite_by_token ex_db ''T'' = Some ex_invite" by code_simp
  have h3: "\<not> truthy (used_at ex_invite)" by code_simp
  have h4: "select_date_night ex_db (date_night_id ex_invite) = Some ex_event" by code_simp
  have h5: "getTheme (theme_id ex_event) = Some (hd THEMES)" by code_simp
  have h6: "array_includes (dinner (safeParseMenuJson (menu_json ex_event))) ''Pasta''"
    by (simp add: ex_menu array_includes_def)
  have h7: "[''Soup'', ''Tacos''] = parseLines (field_text (?edit ''dinner''))" by code_simp
  have h8: "[''Board games''] = parseLines (field_text (?edit ''activity''))" by code_simp
  have h9: "[''Romantic''] = parseLines (field_text (?edit ''mood''))" by code_simp
  have h10: "''Tacos'' \<in> set [''Soup'', ''Tacos'']" by simp
  have h11: "''Pasta'' \<notin> set [''Soup'', ''Tacos'']" by simp
  have h12: "store (post_menu ex_world ex_db ex_admin ''ev1'' (Some ?edit))
             = store (post_menu ex_world ex_db ex_admin (date_night_id ex_invite) (Some ?edit))"
    by (simp add: ex_invite_def)
  have h13: "?pasta ''dinnerChoice'' = Some (FStr ''Pasta'')" by (simp add: submission_def)
  have h14: "trim (field_text (?pasta ''activityChoice'')) \<in> set [''Board games'']" by code_simp
  have h15: "trim (field_text (?pasta ''moodChoice'')) \<in> set [''Romantic'']" by code_simp
  have h16: "?tacos ''dinnerChoice'' = Some (FStr ''Tacos'')" by (simp add: submission_def)
  have h17: "trim (field_text (?tacos ''activityChoice'')) \<in> set [''Board games'']" by code_simp
  have h18: "trim (field_text (?tacos ''moodChoice'')) \<in> set [''Romantic'']" by code_simp
  have h19: "\<not> insert_fault ex_world" "\<not> update_fault ex_world" by code_simp+
  have h21: "\<not> list_ex (\<lambda>s. sel_id s = nanoid12 ex_world \<or> invite_id s = inv_id ex_invite)
                 (selections ex_db)"
    by code_simp
  have fl: "flash ex_session = None" by code_simp
  have nf: "\<not> select_date_night_fault ex_world" "\<not> update_menu_fault ex_world"
    "\<not> select_invite_fault ex_world" "\<not> select_date_night_fault ex_world"
    by code_simp+
  note t = menu_edit_is_live [OF h1 h2 h3 h4 h5 h6 h7 h8 h9 h10 h11 h12 h13 h14 h15 h16 h17 h18
      h19 h21 nf, where s = ex_session]
  show ?thesis
    using h6 h7 [symmetric] t by (simp add: fl)
qed

section \<open>Resending an invite\<close>

text \<open>
  C8 (as amended). Resend leaves the store exactly as it was, whatever happens to the
  email request: no token is generated and the invite read back afterwards is the same
  row. For an invite with a recipient address whose date night and theme exist, it hands
  \<open>sendEmail\<close> one email, the invite notification rendered from the date night, the theme
  and the URL of the token the invite already has. For an invite without a recipient
  address it sends nothing, and the administrator is told that the invite was not found or
  has no recipient address.
\<close>

theorem resend_changes_nothing:
  "store (post_resend w d s inviteId) = d \<and>
   select_invite_by_id (store (post_resend w d s inviteId)) inviteId
     = select_invite_by_id d inviteId \<and>
   (isAdmin s \<and> \<not> select_invite_fault w \<and> \<not> select_date_night_fault w \<and>
    select_invite_by_id d inviteId = Some iv \<and> truthy (recipient_email iv) \<and>
    select_date_night d (date_night_id iv) = Some dn \<and> getTheme (theme_id dn) = Some th \<longrightarrow>
      outbox (post_resend w d s inviteId)
        = [\<lparr>mail_to = text_of (recipient_email iv),
            mail_content = InviteEmail (title dn) (th_name th) (th_blurb th)
                             (baseUrl w @ ''/invite/'' @ token iv)\<rparr>] \<and>
      response (post_resend w d s inviteId) = Redirect (''/admin/date-night/'' @ dn_id dn) \<and>
      session (post_resend w d s inviteId)
        = (case sendEmail w (invite_fetch w) of
             Inr _ \<Rightarrow> setFlash s (Flash Info Msg_resent)
           | Inl e \<Rightarrow> setFlash s (Flash Error (Msg_resend_failed e)))) \<and>
   (select_invite_by_id d inviteId = Some iv \<and> \<not> truthy (recipient_email iv) \<longrightarrow>
      outbox (post_resend w d s inviteId) = [] \<and>
      (isAdmin s \<and> \<not> select_invite_fault w \<longrightarrow>
         post_resend w d s inviteId
           = \<lparr>response = Redirect ''/admin/dashboard'',
              session = setFlash s (Flash Error Msg_no_invite_or_email),
              store = d, outbox = [], console = []\<rparr>))"
proof -
  have st: "store (post_resend w d s inviteId) = d"
    by (simp add: post_resend_def Let_def split: option.splits)
  have sent: "outbox (post_resend w d s inviteId)
        = [\<lparr>mail_to = text_of (recipient_email iv),
            mail_content = InviteEmail (title dn) (th_name th) (th_blurb th)
                             (baseUrl w @ ''/invite/'' @ token iv)\<rparr>] \<and>
      response (post_resend w d s inviteId) = Redirect (''/admin/date-night/'' @ dn_id dn) \<and>
      session (post_resend w d s inviteId)
        = (case sendEmail w (invite_fetch w) of
             Inr _ \<Rightarrow> setFlash s (Flash Info Msg_resent)
           | Inl e \<Rightarrow> setFlash s (Flash Error (Msg_resend_failed e)))"
    if "isAdmin s" "\<not> select_invite_fault w" "\<not> select_date_night_fault w"
      "select_invite_by_id d inviteId = Some iv" "truthy (recipient_email iv)"
      "select_date_night d (date_night_id iv) = Some dn" "getTheme (theme_id dn) = Some th"
    using that by (simp add: post_resend_def Let_def)
  have none: "outbox (post_resend w d s inviteId) = []"
    if "select_invite_by_id d inviteId = Some iv" "\<not> truthy (recipient_email iv)"
    using that by (simp add: post_resend_def)
  have told: "post_resend w d s inviteId
           = \<lparr>response = Redirect ''/admin/dashboard'',
              session = setFlash s (Flash Error Msg_no_invite_or_email),
              store = d, outbox = [], console = []\<rparr>"
    if "select_invite_by_id d inviteId = Some iv" "\<not> truthy (recipient_email iv)"
      "isAdmin s" "\<not> select_invite_fault w"
    using that by (simp add: post_resend_def)
  show ?thesis
    using st sent none told by (simp only:) blast
qed

text \<open>C8 at the scenario: the email request rejected and delivered for the invite with an
  address, and the resend of an invite issued without one.\<close>

theorem resend_changes_nothing_witness:
  "isAdmin ex_admin \<and>
   select_invite_by_id ex_db ''in1'' = Some ex_invite \<and>
   truthy (recipient_email ex_invite) \<and>
   select_date_night ex_db (date_night_id ex_invite) = Some ex_event \<and>
   getTheme (theme_id ex_event) = Some (hd THEMES) \<and>
   sendEmail (ex_world\<lparr>invite_fetch := Rejects ''offline''\<rparr>) (Rejects ''offline'')
     = Inl (Fetch_rejected ''offline'') \<and>
   store (post_resend (ex_world\<lparr>invite_fetch := Rejects ''offline''\<rparr>) ex_db ex_admin ''in1'') = ex_db \<and>
   store (post_resend ex_world ex_db ex_admin ''in1'') = ex_db \<and>
   outbox (post_resend (ex_world\<lparr>invite_fetch := Rejects ''offline''\<rparr>) ex_db ex_admin ''in1'')
     = [\<lparr>mail_to = ''partner@example.org'',
         mail_content = InviteEmail ''Friday'' ''Cottagecore Classic''
                          ''Warm bread, soft blankets, candlelight, and gentle joy.''
                          ''http://localhost:3000/invite/T''\<rparr>] \<and>
   session (post_resend (ex_world\<lparr>invite_fetch := Rejects ''offline''\<rparr>) ex_db ex_admin ''in1'')
     = setFlash ex_admin (Flash Error (Msg_resend_failed (Fetch_rejected ''offline''))) \<and>
   select_invite_by_id
       (store (post_resend (ex_world\<lparr>invite_fetch := Rejects ''offline''\<rparr>) ex_db ex_admin ''in1''))
       ''in1''
     = Some ex_invite \<and>
   select_invite_by_id (ex_db\<lparr>invites := [ex_invite\<lparr>recipient_email := None\<rparr>]\<rparr>) ''in1''
     = Some (ex_invite\<lparr>recipient_email := None\<rparr>) \<and>
   \<not> truthy (recipient_email (ex_invite\<lparr>recipient_email := None\<rparr>)) \<and>
   post_resend ex_world (ex_db\<lparr>invites := [ex_invite\<lparr>recipient_email := None\<rparr>]\<rparr>) ex_admin ''in1''
     = \<lparr>response = Redirect ''/admin/dashboard'',
        session = setFlash ex_admin (Flash Error Msg_no_invite_or_email),
        store = ex_db\<lparr>invites := [ex_invite\<lparr>recipient_email := None\<rparr>]\<rparr>,
        outbox = [], console = []\<rparr>"
proof -
  let ?w = "ex_world\<lparr>invite_fetch := Rejects ''offline''\<rparr>"
  let ?iv = "ex_invite\<lparr>recipient_email := None\<rparr>"
  let ?d = "ex_db\<lparr>invites := [?iv]\<rparr>"
  have h: "isAdmin ex_admin" "select_invite_by_id ex_db ''in1'' = Some ex_invite"
    "truthy (recipient_email ex_invite)"
    "select_date_night ex_db (date_night_id ex_invite) = Some ex_event"
    "getTheme (theme_id ex_event) = Some (hd THEMES)"
    by code_simp+
  have nf: "\<not> select_invite_fault ?w" "\<not> select_date_night_fault ?w"
    "\<not> select_invite_fault ex_world"
    by code_simp+
  have f: "sendEmail ?w (Rejects ''offline'') = Inl (Fetch_rejected ''offline'')" by code_simp
  have g: "invite_fetch ?w = Rejects ''offline''" by simp
  have v: "text_of (recipient_email ex_invite) = ''partner@example.org''"
    "title ex_event = ''Friday''" "th_name (hd THEMES) = ''Cottagecore Classic''"
    "th_blurb (hd THEMES) = ''Warm bread, soft blankets, candlelight, and gentle joy.''"
    "baseUrl ?w = ''http://localhost:3000''" "token ex_invite = ''T''"
    by code_simp+
  have n: "select_invite_by_id ?d ''in1'' = Some ?iv" "\<not> truthy (recipient_email ?iv)"
    by code_simp+
  note t1 = resend_changes_nothing [of ?w ex_db ex_admin "''in1''" ex_invite ex_event "hd THEMES"]
  note t2 = resend_changes_nothing [of ex_world ex_db ex_admin "''in1''" ex_invite ex_event "hd THEMES"]
  note t3 = resend_changes_nothing [of ex_world ?d ex_admin "''in1''" ?iv]
  have r1: "outbox (post_resend ?w ex_db ex_admin ''in1'')
     = [\<lparr>mail_to = ''partner@example.org'',
         mail_content = InviteEmail ''Friday'' ''Cottagecore Classic''
                          ''Warm bread, soft blankets, candlelight, and gentle joy.''
                          ''http://localhost:3000/invite/T''\<rparr>]"
    "session (post_resend ?w ex_db ex_admin ''in1'')
     = setFlash ex_admin (Flash Error (Msg_resend_failed (Fetch_rejected ''offline'')))"
    using t1 h nf f by (simp_all add: v g)
  have r2: "select_invite_by_id (store (post_resend ?w ex_db ex_admin ''in1'')) ''in1'' = Some ex_invite"
    using t1 h by simp
  have r3: "post_resend ex_world ?d ex_admin ''in1''
     = \<lparr>response = Redirect ''/admin/dashboard'',
        session = setFlash ex_admin (Flash Error Msg_no_invite_or_email),
        store = ?d, outbox = [], console = []\<rparr>"
    using t3 n h(1) nf(3) by blast
  have s1: "store (post_resend ?w ex_db ex_admin ''in1'') = ex_db" using t1 by blast
  have s2: "store (post_resend ex_world ex_db ex_admin ''in1'') = ex_db" using t2 by blast
  show ?thesis
    by (intro conjI h f s1 s2 r1 r2 n r3)
qed

text \<open>
  C8 as stated fails where it says that the resend of every invite dispatches the
  notification: an invite issued with the address field left blank has no recipient
  address, and its resend sends nothing.
\<close>

theorem resend_without_address_sends_nothing:
  "post_issue (ex_world\<lparr>nanoid12 := ''in2''\<rparr>) ex_db ex_admin ''ev1''
       (Some [''recipientEmail'' \<mapsto> FStr []])
     = \<lparr>response = Redirect ''/admin/date-night/ev1'',
        session = \<lparr>isAdmin = True, flash = Some (Flash Info Msg_invite_created)\<rparr>,
        store = ex_db\<lparr>invites :=
                  [ex_invite,
                   \<lparr>inv_id = ''in2'', date_night_id = ''ev1'', token = ''T2'',
                    recipient_email = None, used_at = None,
                    inv_created_at = ''2024-02-03T10:00:00.000Z''\<rparr>]\<rparr>,
        outbox = [], console = []\<rparr> \<and>
   post_resend ex_world
       (store (post_issue (ex_world\<lparr>nanoid12 := ''in2''\<rparr>) ex_db ex_admin ''ev1''
                 (Some [''recipientEmail'' \<mapsto> FStr []])))
       ex_admin ''in2''
     = \<lparr>response = Redirect ''/admin/dashboard'',
        session = \<lparr>isAdmin = True, flash = Some (Flash Error Msg_no_invite_or_email)\<rparr>,
        store = ex_db\<lparr>invites :=
                  [ex_invite,
                   \<lparr>inv_id = ''in2'', date_night_id = ''ev1'', token = ''T2'',
                    recipient_email = None, used_at = None,
                    inv_created_at = ''2024-02-03T10:00:00.000Z''\<rparr>]\<rparr>,
        outbox = [], console = []\<rparr>"
  by code_simp

section \<open>Normalisation of the submitted fields\<close>











end
